theory Spec2Isabelle
  imports Main "HOL-Library.Char_ord" "HOL-Library.List_Lexorder"
begin

section \<open>Python values as nested structures\<close>

text \<open>
  The module \<^verbatim>\<open>nest_util.py\<close> inspects three things of a Python object: the two
  attributes \<^verbatim>\<open>_tfp_nest_expansion_force_leaf\<close> and
  \<^verbatim>\<open>_tfp_nest_expansion_force_args\<close> (through \<^verbatim>\<open>hasattr\<close>), its runtime kind
  (\<^verbatim>\<open>collections.Sequence\<close>, \<^verbatim>\<open>collections.Mapping\<close>, namedtuple, tensor, numpy
  array) and, through \<^verbatim>\<open>tf.nest\<close>, its children. A value is therefore a tree whose
  every node carries the two attributes. The attributes are those of the object's class,
  as the library sets them, so that a container \<^verbatim>\<open>tf.nest\<close> builds again with the type
  of the original has the attributes of the original.

  \<^item> \<open>Atom\<close> is an object that \<^verbatim>\<open>tf.nest\<close> does not open. Its \<open>atom_type\<close> says
    whether it is a \<^verbatim>\<open>str\<close>/\<^verbatim>\<open>bytes\<close> (a \<^verbatim>\<open>collections.Sequence\<close> that
    \<^verbatim>\<open>tf.nest\<close> treats as a leaf), a \<^verbatim>\<open>Tensor\<close>, a \<^verbatim>\<open>np.ndarray\<close> or any other
    object (a number, \<^verbatim>\<open>None\<close>, a \<^verbatim>\<open>DType\<close>, ...).
  \<^item> \<open>Seq\<close> is a \<^verbatim>\<open>list\<close> or a \<^verbatim>\<open>tuple\<close> (or a subclass: the attributes can only be
    present on a subclass), with its elements in order.
  \<^item> \<open>NamedTuple\<close> is a namedtuple with its type name and its fields in order.
  \<^item> \<open>Mapping\<close> is a \<^verbatim>\<open>dict\<close>: its items in insertion order, keys being strings.
\<close>

record attrs =
  tfp_nest_expansion_force_leaf :: bool
  tfp_nest_expansion_force_args :: bool

definition no_attrs :: attrs where
  "no_attrs = \<lparr>tfp_nest_expansion_force_leaf = False, tfp_nest_expansion_force_args = False\<rparr>"

datatype atom_type = PyStr | PyTensor | PyNdArray | PyObject

datatype seq_type = PyList | PyTuple

datatype 'a struct =
    Atom attrs atom_type 'a
  | Seq attrs seq_type "'a struct list"
  | NamedTuple attrs string "(string \<times> 'a struct) list"
  | Mapping attrs "(string \<times> 'a struct) list"

fun attrs_of :: "'a struct \<Rightarrow> attrs" where
  "attrs_of (Atom a t v) = a"
| "attrs_of (Seq a k xs) = a"
| "attrs_of (NamedTuple a n fs) = a"
| "attrs_of (Mapping a kvs) = a"

text \<open>\<^verbatim>\<open>isinstance(x, collections.Sequence)\<close>: lists, tuples, namedtuples and strings.\<close>

fun is_Sequence :: "'a struct \<Rightarrow> bool" where
  "is_Sequence (Atom a t v) = (t = PyStr)"
| "is_Sequence (Seq a k xs) = True"
| "is_Sequence (NamedTuple a n fs) = True"
| "is_Sequence (Mapping a kvs) = False"

text \<open>\<^verbatim>\<open>isinstance(x, collections.Mapping)\<close>.\<close>

fun is_Mapping :: "'a struct \<Rightarrow> bool" where
  "is_Mapping (Mapping a kvs) = True"
| "is_Mapping _ = False"

text \<open>\<^verbatim>\<open>nest._is_namedtuple\<close>.\<close>

fun is_namedtuple :: "'a struct \<Rightarrow> bool" where
  "is_namedtuple (NamedTuple a n fs) = True"
| "is_namedtuple _ = False"

section \<open>The classification predicates of the module\<close>

definition force_leaf :: "'a struct \<Rightarrow> bool" where
  "force_leaf struct = tfp_nest_expansion_force_leaf (attrs_of struct)"

definition force_expand_as_args :: "'a struct \<Rightarrow> bool" where
  "force_expand_as_args struct = tfp_nest_expansion_force_args (attrs_of struct)"

definition expand_as_args :: "'a struct \<Rightarrow> bool" where
  "expand_as_args args =
     ((is_Sequence args \<and> \<not> is_namedtuple args \<and> \<not> force_leaf args)
      \<or> force_expand_as_args args)"

definition expand_as_kwargs :: "'a struct \<Rightarrow> bool" where
  "expand_as_kwargs args = (is_Mapping args \<and> \<not> force_leaf args)"

definition maybe_convertible_to_tensor :: "'a struct \<Rightarrow> bool" where
  "maybe_convertible_to_tensor struct = (\<not> is_namedtuple struct \<or> force_leaf struct)"

section \<open>Calling a function with an argument bundle\<close>

text \<open>
  The three ways \<^verbatim>\<open>call_fn\<close> can invoke the callee: \<^verbatim>\<open>fn(*args)\<close>, \<^verbatim>\<open>fn(**args)\<close>
  and \<^verbatim>\<open>fn(args)\<close>. The callee is a function of the invocation it receives; what
  Python's unpacking then does with the bundle is the callee's side.
\<close>

datatype 'a invocation =
    StarArgs "'a struct"
  | StarStarKwargs "'a struct"
  | SingleArg "'a struct"

definition call_fn :: "('a invocation \<Rightarrow> 'r) \<Rightarrow> 'a struct \<Rightarrow> 'r" where
  "call_fn fn args =
     (if expand_as_args args then fn (StarArgs args)
      else if expand_as_kwargs args then fn (StarStarKwargs args)
      else fn (SingleArg args))"

section \<open>Errors, the leaf converter and the record of its calls\<close>

text \<open>
  A raised exception is a value. \<^verbatim>\<open>_nested_convert_to_tensor\<close> catches
  \<^verbatim>\<open>ValueError\<close> and \<^verbatim>\<open>TypeError\<close> (and their subclasses, which are counted with
  them); \<^verbatim>\<open>convert_fn\<close> raises \<^verbatim>\<open>NotImplementedError\<close> with a message formatted
  from the value and the path, kept here as the two arguments of the constructor.
  \<^verbatim>\<open>KeyError\<close> is what a failed lookup in \<^verbatim>\<open>tf.nest\<close> raises. Every other exception
  is \<open>OtherError\<close>.
\<close>

datatype path_elem = Index nat | Key string

datatype 'a py_error =
    ValueError string
  | TypeError string
  | NotImplementedError "'a struct" "path_elem list"
  | KeyError path_elem
  | OtherError string

text \<open>\<^verbatim>\<open>except (ValueError, TypeError)\<close>.\<close>

fun caught :: "'a py_error \<Rightarrow> bool" where
  "caught (ValueError m) = True"
| "caught (TypeError m) = True"
| "caught _ = False"

text \<open>
  \<^verbatim>\<open>tf.convert_to_tensor(value, dtype=None, dtype_hint=None, name=None)\<close> is not part
  of the module: it is a parameter \<open>conv\<close> of the model, a function of the four arguments
  that returns the contents of the new tensor or raises. A \<open>dtype\<close>, a \<open>dtype_hint\<close> and a
  \<open>name\<close> are optional, \<^verbatim>\<open>None\<close> being \<open>None\<close>. Every function below returns, with its
  result, the list of the calls of \<^verbatim>\<open>tf.convert_to_tensor\<close> it made, in order.
\<close>

datatype ('a, 'd) tf_call =
  ConvertToTensor (call_value: "'a struct") (call_dtype: "'d option")
    (call_dtype_hint: "'d option") (call_name: "string option")

type_synonym ('a, 'd) converter =
  "'a struct \<Rightarrow> 'd option \<Rightarrow> 'd option \<Rightarrow> string option \<Rightarrow> 'a py_error + 'a"

type_synonym ('a, 'd, 'r) traced = "('a py_error + 'r) \<times> ('a, 'd) tf_call list"

definition convert_to_tensor ::
  "('a, 'd) converter \<Rightarrow> 'a struct \<Rightarrow> 'd option \<Rightarrow> 'd option \<Rightarrow> string option
    \<Rightarrow> ('a, 'd, 'a struct) traced" where
  "convert_to_tensor conv v dtype dtype_hint name =
     ((case conv v dtype dtype_hint name of
         Inl e \<Rightarrow> Inl e
       | Inr t \<Rightarrow> Inr (Atom no_attrs PyTensor t)),
      [ConvertToTensor v dtype dtype_hint name])"

section \<open>The functions of \<^verbatim>\<open>tf.nest\<close> the module calls\<close>

text \<open>
  \<^verbatim>\<open>tf.nest\<close> opens sequences (not strings), namedtuples and mappings, whatever
  attributes they carry. It visits the elements of a sequence and the fields of a
  namedtuple in order, and the values of a dictionary in the order of its sorted keys.
\<close>

fun is_nested :: "'a struct \<Rightarrow> bool" where
  "is_nested (Atom a t v) = False"
| "is_nested (Seq a k xs) = True"
| "is_nested (NamedTuple a n fs) = True"
| "is_nested (Mapping a kvs) = True"

fun yield_value :: "'a struct \<Rightarrow> 'a struct list" where
  "yield_value (Atom a t v) = []"
| "yield_value (Seq a k xs) = xs"
| "yield_value (NamedTuple a n fs) = map snd fs"
| "yield_value (Mapping a kvs) = map snd (sort_key fst kvs)"

text \<open>\<^verbatim>\<open>tf.nest.flatten\<close>.\<close>

fun flatten :: "'a struct \<Rightarrow> 'a struct list" where
  "flatten (Atom a t v) = [Atom a t v]"
| "flatten (Seq a k xs) = concat (map flatten xs)"
| "flatten (NamedTuple a n fs) = concat (map (\<lambda>(f, x). flatten x) fs)"
| "flatten (Mapping a kvs) = concat (map (\<lambda>(key, x). flatten x) (sort_key fst kvs))"

text \<open>
  \<^verbatim>\<open>tf.nest.map_structure(func, structure)\<close> for a function that cannot raise and has
  no effect (the only use in the module): the order in which the leaves are visited is
  then not observable, and the result keeps every container, with its type, its
  attributes and its keys in their order.
\<close>

fun map_structure :: "('a struct \<Rightarrow> 'b struct) \<Rightarrow> 'a struct \<Rightarrow> 'b struct" where
  "map_structure func (Atom a t v) = func (Atom a t v)"
| "map_structure func (Seq a k xs) = Seq a k (map (map_structure func) xs)"
| "map_structure func (NamedTuple a n fs) =
     NamedTuple a n (map (\<lambda>(f, x). (f, map_structure func x)) fs)"
| "map_structure func (Mapping a kvs) =
     Mapping a (map (\<lambda>(key, x). (key, map_structure func x)) kvs)"

text \<open>
  \<^verbatim>\<open>nest.get_traverse_shallow_structure(traverse_fn, structure)\<close> for a
  \<^verbatim>\<open>traverse_fn\<close> that returns a boolean: a node that is not to be traversed, and every
  atom, becomes the boolean \<^verbatim>\<open>traverse_fn\<close> returned for it.
\<close>

fun get_traverse_shallow_structure :: "('a struct \<Rightarrow> bool) \<Rightarrow> 'a struct \<Rightarrow> bool struct" where
  "get_traverse_shallow_structure traverse_fn (Atom a t v) =
     Atom no_attrs PyObject (traverse_fn (Atom a t v))"
| "get_traverse_shallow_structure traverse_fn (Seq a k xs) =
     (if traverse_fn (Seq a k xs)
      then Seq a k (map (get_traverse_shallow_structure traverse_fn) xs)
      else Atom no_attrs PyObject False)"
| "get_traverse_shallow_structure traverse_fn (NamedTuple a n fs) =
     (if traverse_fn (NamedTuple a n fs)
      then NamedTuple a n (map (\<lambda>(f, x). (f, get_traverse_shallow_structure traverse_fn x)) fs)
      else Atom no_attrs PyObject False)"
| "get_traverse_shallow_structure traverse_fn (Mapping a kvs) =
     (if traverse_fn (Mapping a kvs)
      then Mapping a (map (\<lambda>(key, x). (key, get_traverse_shallow_structure traverse_fn x)) kvs)
      else Atom no_attrs PyObject False)"

text \<open>Every child of a node is smaller than the node: the recursions below end.\<close>

lemma size_yield_value: "x \<in> set (yield_value s) \<Longrightarrow> size x < size s"
proof (cases s)
  case (Seq a k xs)
  assume "x \<in> set (yield_value s)"
  with Seq show ?thesis by (auto simp: less_Suc_eq_le size_list_estimation')
next
  case (NamedTuple a n fs)
  assume "x \<in> set (yield_value s)"
  with NamedTuple obtain f where "(f, x) \<in> set fs" by auto
  then have "size x \<le> size_list (size_prod (\<lambda>_. 0) size) fs"
    by (intro size_list_estimation' [where x = "(f, x)"]) auto
  with NamedTuple show ?thesis by simp
next
  case (Mapping a kvs)
  assume "x \<in> set (yield_value s)"
  with Mapping obtain f where "(f, x) \<in> set kvs" by auto
  then have "size x \<le> size_list (size_prod (\<lambda>_. 0) size) kvs"
    by (intro size_list_estimation' [where x = "(f, x)"]) auto
  with Mapping show ?thesis by simp
qed simp

lemma zip_yield_value_size:
  "p \<in> set (zip (yield_value s) ys) \<Longrightarrow> (x, y) = p \<Longrightarrow> size x < size s"
  by (auto dest: set_zip_leftD size_yield_value)

text \<open>
  \<^verbatim>\<open>nest.assert_shallow_structure(shallow_tree, input_tree, check_types)\<close>: where the
  shallow tree is nested, the input must be nested, of the same length and, under
  \<^verbatim>\<open>check_types\<close> (the default, which \<^verbatim>\<open>nest.map_structure_up_to\<close> uses), of a
  compatible type and, for a dictionary, hold the shallow tree's keys; the branches are
  then checked pairwise. It returns the exception raised, if any.

  Python classes are known here by the kind of container and the two attributes only. A
  container that carries an attribute is an instance of a subclass of the plain container
  type, and a namedtuple is an instance of \<^verbatim>\<open>tuple\<close>; this is what
  \<^verbatim>\<open>isinstance(input_tree, type(shallow_tree))\<close> sees. Two namedtuples with the same
  name and fields, any two lists and any two mappings are compatible as well.
\<close>

fun instance_of_type_of :: "'a struct \<Rightarrow> 's struct \<Rightarrow> bool" where
  "instance_of_type_of (Seq a' k' xs) (Seq a k ss) = (k' = k \<and> (a' = a \<or> a = no_attrs))"
| "instance_of_type_of (NamedTuple a' n' fs') (Seq a k ss) = (k = PyTuple \<and> a = no_attrs)"
| "instance_of_type_of (NamedTuple a' n' fs') (NamedTuple a n fs) =
     (n' = n \<and> map fst fs' = map fst fs \<and> (a' = a \<or> a = no_attrs))"
| "instance_of_type_of (Mapping a' kvs') (Mapping a kvs) = (a' = a \<or> a = no_attrs)"
| "instance_of_type_of _ _ = False"

fun is_list :: "'a struct \<Rightarrow> bool" where
  "is_list (Seq a PyList xs) = True"
| "is_list _ = False"

fun same_namedtuples :: "'s struct \<Rightarrow> 'a struct \<Rightarrow> bool" where
  "same_namedtuples (NamedTuple a n fs) (NamedTuple a' n' fs') =
     (n = n' \<and> map fst fs = map fst fs')"
| "same_namedtuples _ _ = False"

fun keys_of :: "'a struct \<Rightarrow> string list" where
  "keys_of (Mapping a kvs) = map fst kvs"
| "keys_of _ = []"

fun first_error :: "'e option list \<Rightarrow> 'e option" where
  "first_error [] = None"
| "first_error (None # rest) = first_error rest"
| "first_error (Some e # rest) = Some e"

function assert_shallow_structure ::
  "bool \<Rightarrow> 's struct \<Rightarrow> 'a struct \<Rightarrow> 'e py_error option" where
  "assert_shallow_structure check_types shallow_tree input_tree =
     (if is_nested shallow_tree then
        if \<not> is_nested input_tree then
          Some (TypeError ''If shallow structure is a sequence, input must also be a sequence.'')
        else if check_types \<and> \<not> instance_of_type_of input_tree shallow_tree
             \<and> (if is_namedtuple shallow_tree \<and> is_namedtuple input_tree
                 then \<not> same_namedtuples shallow_tree input_tree
                 else \<not> (is_list shallow_tree \<and> is_list input_tree)
                      \<and> \<not> (is_Mapping shallow_tree \<and> is_Mapping input_tree)) then
          Some (TypeError ''The two structures don't have the same sequence type.'')
        else if length (yield_value input_tree) \<noteq> length (yield_value shallow_tree) then
          Some (ValueError ''The two structures don't have the same sequence length.'')
        else if check_types \<and> is_Mapping shallow_tree
                \<and> \<not> set (keys_of shallow_tree) \<subseteq> set (keys_of input_tree) then
          Some (ValueError ''The shallow_tree's keys are not a subset of the input_tree's keys.'')
        else first_error (map (\<lambda>(shallow_branch, input_branch).
                 assert_shallow_structure check_types shallow_branch input_branch)
               (zip (yield_value shallow_tree) (yield_value input_tree)))
      else None)"
  by pat_completeness auto

termination assert_shallow_structure
  by (relation "measure (\<lambda>(c, s, i). size s)") (auto intro: zip_yield_value_size)

declare assert_shallow_structure.simps [simp del]

text \<open>
  \<^verbatim>\<open>nest.flatten_up_to(shallow_tree, input_tree)\<close>: the sub-structures of the input
  that stand where the shallow tree has its leaves, in the order of the traversal.
\<close>

function flatten_up_to :: "'s struct \<Rightarrow> 'a struct \<Rightarrow> 'a struct list" where
  "flatten_up_to shallow_tree input_tree =
     (if is_nested shallow_tree then
        concat (map (\<lambda>(shallow_branch, input_branch). flatten_up_to shallow_branch input_branch)
                  (zip (yield_value shallow_tree) (yield_value input_tree)))
      else [input_tree])"
  by pat_completeness auto

termination flatten_up_to
  by (relation "measure (\<lambda>(s, i). size s)") (auto intro: zip_yield_value_size)

declare flatten_up_to.simps [simp del]

text \<open>
  A list comprehension over a function that may raise: the elements are visited in
  order, the first exception ends the loop, and the calls made so far are kept.
\<close>

fun traverse :: "('x \<Rightarrow> ('e + 'y) \<times> 'c list) \<Rightarrow> 'x list \<Rightarrow> ('e + 'y list) \<times> 'c list" where
  "traverse func [] = (Inr [], [])"
| "traverse func (x # xs) =
     (case func x of
        (Inl e, calls) \<Rightarrow> (Inl e, calls)
      | (Inr y, calls) \<Rightarrow>
          (case traverse func xs of
             (Inl e, calls') \<Rightarrow> (Inl e, calls @ calls')
           | (Inr ys, calls') \<Rightarrow> (Inr (y # ys), calls @ calls')))"

lemma traverse_cong [fundef_cong]:
  "xs = ys \<Longrightarrow> (\<And>x. x \<in> set ys \<Longrightarrow> f x = g x) \<Longrightarrow> traverse f xs = traverse g ys"
  by (induction ys arbitrary: xs) (auto split: prod.splits sum.splits)

text \<open>
  \<^verbatim>\<open>nest._sequence_like\<close> for a dictionary: the results, listed in the order of the
  sorted keys, are looked up by key to fill the keys in their original order.
\<close>

definition dict_like :: "(string \<times> 's) list \<Rightarrow> 'r list \<Rightarrow> (string \<times> 'r) list" where
  "dict_like instance args =
     (let result = map_of (zip (map fst (sort_key fst instance)) args)
      in map (\<lambda>(key, _). (key, the (result key))) instance)"

text \<open>
  The traversal behind \<^verbatim>\<open>nest.map_structure_up_to\<close>. \<^verbatim>\<open>tf.nest\<close> flattens the input
  up to the shallow tree, applies the function along the flat list and packs the results
  as the shallow tree; the recursion below does the three steps in one pass, visiting
  the leaves of the shallow tree in the same order. The function receives the contents of
  the shallow tree's leaf and the sub-structure of the input that stands there. The
  result has the containers of the shallow tree.
\<close>

function (sequential) map_up_to ::
  "'s struct \<Rightarrow> ('s \<Rightarrow> 'a struct \<Rightarrow> ('e + 'r struct) \<times> 'c list) \<Rightarrow> 'a struct
    \<Rightarrow> ('e + 'r struct) \<times> 'c list" where
  "map_up_to (Atom a t v) func input_tree = func v input_tree"
| "map_up_to (Seq a k ss) func input_tree =
     (case traverse (\<lambda>(shallow_branch, input_branch). map_up_to shallow_branch func input_branch)
             (zip ss (yield_value input_tree)) of
        (Inl e, calls) \<Rightarrow> (Inl e, calls)
      | (Inr results, calls) \<Rightarrow> (Inr (Seq a k results), calls))"
| "map_up_to (NamedTuple a n fs) func input_tree =
     (case traverse (\<lambda>(shallow_branch, input_branch). map_up_to shallow_branch func input_branch)
             (zip (map snd fs) (yield_value input_tree)) of
        (Inl e, calls) \<Rightarrow> (Inl e, calls)
      | (Inr results, calls) \<Rightarrow> (Inr (NamedTuple a n (zip (map fst fs) results)), calls))"
| "map_up_to (Mapping a kvs) func input_tree =
     (case traverse (\<lambda>(shallow_branch, input_branch). map_up_to shallow_branch func input_branch)
             (zip (map snd (sort_key fst kvs)) (yield_value input_tree)) of
        (Inl e, calls) \<Rightarrow> (Inl e, calls)
      | (Inr results, calls) \<Rightarrow> (Inr (Mapping a (dict_like kvs results)), calls))"
  by pat_completeness auto

termination map_up_to
proof (relation "measure (\<lambda>(s, f, i). size s)", goal_cases)
  case 1
  show ?case by simp
next
  case (2 a k ss func input_tree p x y)
  then have "x \<in> set (yield_value (Seq a k ss))" by (auto dest: set_zip_leftD)
  then show ?case using size_yield_value by fastforce
next
  case (3 a n fs func input_tree p x y)
  then have "x \<in> set (yield_value (NamedTuple a n fs))" by (auto dest: set_zip_leftD)
  then show ?case using size_yield_value by fastforce
next
  case (4 a kvs func input_tree p x y)
  then have "x \<in> set (yield_value (Mapping a kvs))" by (auto dest: set_zip_leftD)
  then show ?case using size_yield_value by fastforce
qed

text \<open>
  \<^verbatim>\<open>nest.map_structure_up_to(shallow_tree, func, input_tree)\<close>: the check first, which
  calls nothing, then the traversal.
\<close>

definition map_structure_up_to ::
  "'s struct \<Rightarrow> ('a struct \<Rightarrow> ('a py_error + 'r struct) \<times> 'c list) \<Rightarrow> 'a struct
    \<Rightarrow> ('a py_error + 'r struct) \<times> 'c list" where
  "map_structure_up_to shallow_tree func input_tree =
     (case assert_shallow_structure True shallow_tree input_tree of
        Some e \<Rightarrow> (Inl e, [])
      | None \<Rightarrow> map_up_to shallow_tree (\<lambda>_. func) input_tree)"

text \<open>
  \<^verbatim>\<open>nest.map_structure_up_to(shallow_tree, func, input_tree, shallow_tree)\<close>, the call
  of \<^verbatim>\<open>convert_args_to_tensor\<close> with \<^verbatim>\<open>dtype\<close> as the shallow tree and as the second
  input: the check of the shallow tree against itself passes, and flattening it up to
  itself gives its leaves, so the function receives each leaf of the shallow tree as its
  second argument.
\<close>

definition map_structure_up_to_with_shallow ::
  "'s struct \<Rightarrow> ('a struct \<Rightarrow> 's \<Rightarrow> ('a py_error + 'r struct) \<times> 'c list) \<Rightarrow> 'a struct
    \<Rightarrow> ('a py_error + 'r struct) \<times> 'c list" where
  "map_structure_up_to_with_shallow shallow_tree func input_tree =
     (case assert_shallow_structure True shallow_tree input_tree of
        Some e \<Rightarrow> (Inl e, [])
      | None \<Rightarrow> map_up_to shallow_tree (\<lambda>leaf s. func s leaf) input_tree)"





















section \<open>Broadcasting\<close>

definition broadcast_structure :: "'b struct \<Rightarrow> 'a struct \<Rightarrow> 'a struct" where
  "broadcast_structure to_structure from_structure =
     (let from_parts = flatten from_structure
      in if length from_parts = 1
         then map_structure (\<lambda>_. from_parts ! 0) to_structure
         else from_structure)"

section \<open>The recursive conversion\<close>

text \<open>
  \<^verbatim>\<open>_get_shallow_structure\<close>: \<^verbatim>\<open>lambda s: s is struct\<close> holds of the root only, a
  finite tree having no proper part equal to itself.
\<close>

definition get_shallow_structure :: "'a struct \<Rightarrow> bool struct" where
  "get_shallow_structure struct = get_traverse_shallow_structure (\<lambda>s. s = struct) struct"

text \<open>
  The function given to \<^verbatim>\<open>nest.map_structure_up_to\<close> is applied to the sub-structures
  \<^verbatim>\<open>flatten_up_to\<close> lists and to nothing else; under the shallow structure of
  \<^verbatim>\<open>_get_shallow_structure\<close> these are the children of the node. This is what makes the
  recursion of \<^verbatim>\<open>_nested_convert_to_tensor\<close> end.
\<close>

lemma map_up_to_cong:
  "(\<And>v x. x \<in> set (flatten_up_to shallow_tree input_tree) \<Longrightarrow> f v x = g v x)
   \<Longrightarrow> map_up_to shallow_tree f input_tree = map_up_to shallow_tree g input_tree"
proof (induction shallow_tree f input_tree rule: map_up_to.induct)
  case (1 a t v func input_tree)
  then show ?case by (simp add: flatten_up_to.simps)
next
  case (2 a k ss func input_tree)
  have "traverse (\<lambda>(s, i). map_up_to s func i) (zip ss (yield_value input_tree))
      = traverse (\<lambda>(s, i). map_up_to s g i) (zip ss (yield_value input_tree))"
  proof (rule traverse_cong [OF refl], clarify)
    fix s i assume m: "(s, i) \<in> set (zip ss (yield_value input_tree))"
    show "map_up_to s func i = map_up_to s g i"
    proof (rule "2.IH" [OF m refl])
      fix v x assume "x \<in> set (flatten_up_to s i)"
      with m have "x \<in> set (flatten_up_to (Seq a k ss) input_tree)"
        by (subst flatten_up_to.simps) force
      then show "func v x = g v x" by (rule "2.prems")
    qed
  qed
  then show ?case by simp
next
  case (3 a n fs func input_tree)
  have "traverse (\<lambda>(s, i). map_up_to s func i) (zip (map snd fs) (yield_value input_tree))
      = traverse (\<lambda>(s, i). map_up_to s g i) (zip (map snd fs) (yield_value input_tree))"
  proof (rule traverse_cong [OF refl], clarify)
    fix s i assume m: "(s, i) \<in> set (zip (map snd fs) (yield_value input_tree))"
    show "map_up_to s func i = map_up_to s g i"
    proof (rule "3.IH" [OF m refl])
      fix v x assume "x \<in> set (flatten_up_to s i)"
      with m have "x \<in> set (flatten_up_to (NamedTuple a n fs) input_tree)"
        by (subst flatten_up_to.simps) force
      then show "func v x = g v x" by (rule "3.prems")
    qed
  qed
  then show ?case by simp
next
  case (4 a kvs func input_tree)
  have "traverse (\<lambda>(s, i). map_up_to s func i)
          (zip (map snd (sort_key fst kvs)) (yield_value input_tree))
      = traverse (\<lambda>(s, i). map_up_to s g i)
          (zip (map snd (sort_key fst kvs)) (yield_value input_tree))"
  proof (rule traverse_cong [OF refl], clarify)
    fix s i assume m: "(s, i) \<in> set (zip (map snd (sort_key fst kvs)) (yield_value input_tree))"
    show "map_up_to s func i = map_up_to s g i"
    proof (rule "4.IH" [OF m refl])
      fix v x assume "x \<in> set (flatten_up_to s i)"
      with m have "x \<in> set (flatten_up_to (Mapping a kvs) input_tree)"
        by (subst flatten_up_to.simps) force
      then show "func v x = g v x" by (rule "4.prems")
    qed
  qed
  then show ?case by simp
qed

lemma map_structure_up_to_cong [fundef_cong]:
  "shallow_tree = shallow_tree' \<Longrightarrow> input_tree = input_tree'
   \<Longrightarrow> (\<And>x. x \<in> set (flatten_up_to shallow_tree' input_tree') \<Longrightarrow> f x = g x)
   \<Longrightarrow> map_structure_up_to shallow_tree f input_tree
       = map_structure_up_to shallow_tree' g input_tree'"
  unfolding map_structure_up_to_def
  using map_up_to_cong [of shallow_tree' input_tree' "\<lambda>_. f" "\<lambda>_. g"]
  by (simp split: option.splits)

lemma insort_key_map_commute:
  "(\<And>p. f' (h p) = f p) \<Longrightarrow> insort_key f' (h x) (map h xs) = map h (insort_key f x xs)"
  by (induction xs) simp_all

lemma sort_key_map_commute:
  "(\<And>p. f' (h p) = f p) \<Longrightarrow> sort_key f' (map h xs) = map h (sort_key f xs)"
  by (induction xs) (simp_all add: insort_key_map_commute)

lemma get_traverse_shallow_structure_False:
  "\<not> traverse_fn x \<Longrightarrow> get_traverse_shallow_structure traverse_fn x = Atom no_attrs PyObject False"
  by (cases x) simp_all

lemma yield_value_neq: "x \<in> set (yield_value s) \<Longrightarrow> x \<noteq> s"
  using size_yield_value by fastforce

lemma get_shallow_structure_Seq:
  "get_shallow_structure (Seq a k xs) = Seq a k (map (\<lambda>_. Atom no_attrs PyObject False) xs)"
  using yield_value_neq [of _ "Seq a k xs"]
  by (simp add: get_shallow_structure_def get_traverse_shallow_structure_False)

lemma get_shallow_structure_NamedTuple:
  "get_shallow_structure (NamedTuple a n fs)
     = NamedTuple a n (map (\<lambda>(f, x). (f, Atom no_attrs PyObject False)) fs)"
proof -
  have "\<forall>p \<in> set fs. snd p \<noteq> NamedTuple a n fs"
    using yield_value_neq [of _ "NamedTuple a n fs"] by simp
  then show ?thesis
    by (simp add: get_shallow_structure_def get_traverse_shallow_structure_False case_prod_beta)
qed

lemma get_shallow_structure_Mapping:
  "get_shallow_structure (Mapping a kvs)
     = Mapping a (map (\<lambda>(key, x). (key, Atom no_attrs PyObject False)) kvs)"
proof -
  have "\<forall>p \<in> set kvs. snd p \<noteq> Mapping a kvs"
    using yield_value_neq [of _ "Mapping a kvs"] by simp
  then show ?thesis
    by (simp add: get_shallow_structure_def get_traverse_shallow_structure_False case_prod_beta)
qed

lemma sort_key_shallow_items:
  "sort_key fst (map (\<lambda>(key, x). (key, Atom no_attrs PyObject False :: bool struct)) kvs)
     = map (\<lambda>(key, x). (key, Atom no_attrs PyObject False)) (sort_key fst kvs)"
  using sort_key_map_commute
    [of fst "\<lambda>(key, x). (key, Atom no_attrs PyObject False :: bool struct)" fst kvs]
  by (simp add: case_prod_beta)

lemma yield_value_get_shallow_structure:
  "yield_value (get_shallow_structure s)
     = map (\<lambda>_. Atom no_attrs PyObject False) (yield_value s)"
proof (cases s)
  case (Atom a t v)
  then show ?thesis by (simp add: get_shallow_structure_def)
qed (simp_all add: get_shallow_structure_Seq get_shallow_structure_NamedTuple
       get_shallow_structure_Mapping sort_key_shallow_items comp_def case_prod_beta)

lemma is_nested_get_shallow_structure:
  "is_nested (get_shallow_structure s) = is_nested s"
  by (cases s) (simp_all add: get_shallow_structure_def)

lemma flatten_up_to_get_shallow_structure:
  "is_nested s \<Longrightarrow> flatten_up_to (get_shallow_structure s) s = yield_value s"
proof -
  assume n: "is_nested s"
  have "concat (map (\<lambda>(s', i). flatten_up_to s' i)
          (zip (map (\<lambda>_. Atom no_attrs PyObject False :: bool struct) xs) xs)) = xs"
    for xs :: "'a struct list"
    by (induction xs) (simp_all add: flatten_up_to.simps)
  then show ?thesis using n
    by (subst flatten_up_to.simps)
       (simp add: is_nested_get_shallow_structure yield_value_get_shallow_structure)
qed

text \<open>
  \<^verbatim>\<open>_nested_convert_to_tensor(struct, dtype=None, name=None)\<close>. With a \<open>dtype\<close>, or on
  a value \<^verbatim>\<open>tf.nest\<close> does not open, one conversion, without the name. Otherwise the
  whole structure is tried first, under the name, unless it is a namedtuple that is not
  force-leaf; when the attempt raises \<^verbatim>\<open>ValueError\<close> or \<^verbatim>\<open>TypeError\<close>, or was not
  made, the children are converted by the same function and put back in the container.
\<close>

function nested_convert_to_tensor ::
  "('a, 'd) converter \<Rightarrow> 'a struct \<Rightarrow> 'd option \<Rightarrow> string option
    \<Rightarrow> ('a, 'd, 'a struct) traced" where
  "nested_convert_to_tensor conv struct dtype name =
     (if dtype \<noteq> None \<or> \<not> is_nested struct then
        convert_to_tensor conv struct dtype None None
      else if maybe_convertible_to_tensor struct then
        (case convert_to_tensor conv struct None None name of
           (Inr tensor, calls) \<Rightarrow> (Inr tensor, calls)
         | (Inl e, calls) \<Rightarrow>
             if caught e then
               (case map_structure_up_to (get_shallow_structure struct)
                       (\<lambda>s. nested_convert_to_tensor conv s None name) struct of
                  (result, calls') \<Rightarrow> (result, calls @ calls'))
             else (Inl e, calls))
      else
        map_structure_up_to (get_shallow_structure struct)
          (\<lambda>s. nested_convert_to_tensor conv s None name) struct)"
  by pat_completeness auto

termination nested_convert_to_tensor
  by (relation "measure (\<lambda>(conv, s, d, n). size s)")
     (auto simp: flatten_up_to_get_shallow_structure size_yield_value)

declare nested_convert_to_tensor.simps [simp del]

text \<open>
  \<^verbatim>\<open>convert_args_to_tensor(args, dtype=None, name=None)\<close>. Here \<open>dtype\<close> is a structure
  whose leaves are a \<^verbatim>\<open>DType\<close> or \<^verbatim>\<open>None\<close>; \<^verbatim>\<open>dtype is None\<close> holds of the atom
  \<^verbatim>\<open>None\<close>.
\<close>

definition is_None :: "'d option struct \<Rightarrow> bool" where
  "is_None dtype = (case dtype of Atom a t v \<Rightarrow> v = None | _ \<Rightarrow> False)"

definition convert_args_to_tensor ::
  "('a, 'd) converter \<Rightarrow> 'a struct \<Rightarrow> 'd option struct \<Rightarrow> string option
    \<Rightarrow> ('a, 'd, 'a struct) traced" where
  "convert_args_to_tensor conv args dtype name =
     (if is_None dtype then
        if expand_as_args args \<or> expand_as_kwargs args then
          map_structure_up_to (get_shallow_structure args)
            (\<lambda>s. nested_convert_to_tensor conv s None name) args
        else nested_convert_to_tensor conv args None name
      else
        map_structure_up_to_with_shallow dtype
          (\<lambda>s dtype. nested_convert_to_tensor conv s dtype name) args)"

section \<open>The structured conversion\<close>

text \<open>\<^verbatim>\<open>tf.is_tensor(x)\<close> and \<^verbatim>\<open>isinstance(x, np.ndarray)\<close>.\<close>

fun is_tensor :: "'a struct \<Rightarrow> bool" where
  "is_tensor (Atom a t v) = (t = PyTensor)"
| "is_tensor _ = False"













section \<open>Shapes\<close>

text \<open>
  The shape of a structure is its skeleton with the leaves erased: the kind of every
  container with its attributes, the type of a sequence, the name of a namedtuple, and
  the fields and keys in their order.
\<close>

datatype shape =
    LeafShape
  | SeqShape attrs seq_type "shape list"
  | NamedTupleShape attrs string "(string \<times> shape) list"
  | MappingShape attrs "(string \<times> shape) list"

fun shape_of :: "'a struct \<Rightarrow> shape" where
  "shape_of (Atom a t v) = LeafShape"
| "shape_of (Seq a k xs) = SeqShape a k (map shape_of xs)"
| "shape_of (NamedTuple a n fs) = NamedTupleShape a n (map (\<lambda>(f, x). (f, shape_of x)) fs)"
| "shape_of (Mapping a kvs) = MappingShape a (map (\<lambda>(key, x). (key, shape_of x)) kvs)"

text \<open>
  \<open>collapsed_from r v\<close>: the shape \<open>r\<close> is the shape \<open>v\<close> in which some sub-shapes have been
  replaced by a leaf, and is the same everywhere else.
\<close>

fun collapsed_from :: "shape \<Rightarrow> shape \<Rightarrow> bool" where
  "collapsed_from LeafShape v = True"
| "collapsed_from (SeqShape a k rs) (SeqShape a' k' vs) =
     (a = a' \<and> k = k' \<and> list_all2 collapsed_from rs vs)"
| "collapsed_from (NamedTupleShape a n rs) (NamedTupleShape a' n' vs) =
     (a = a' \<and> n = n' \<and> map fst rs = map fst vs
      \<and> list_all2 collapsed_from (map snd rs) (map snd vs))"
| "collapsed_from (MappingShape a rs) (MappingShape a' vs) =
     (a = a' \<and> map fst rs = map fst vs \<and> list_all2 collapsed_from (map snd rs) (map snd vs))"
| "collapsed_from _ _ = False"

text \<open>
  \<open>children_rel Q v r\<close>: \<open>r\<close> is the container of \<open>v\<close> (same kind, attributes, type, name,
  fields and keys in the same order) and each child of \<open>r\<close> is related by \<open>Q\<close> to the
  child of \<open>v\<close> at the same place.
\<close>

fun children_rel :: "('a struct \<Rightarrow> 'b struct \<Rightarrow> bool) \<Rightarrow> 'a struct \<Rightarrow> 'b struct \<Rightarrow> bool" where
  "children_rel Q (Seq a k xs) (Seq a' k' ys) = (a' = a \<and> k' = k \<and> list_all2 Q xs ys)"
| "children_rel Q (NamedTuple a n fs) (NamedTuple a' n' gs) =
     (a' = a \<and> n' = n \<and> map fst gs = map fst fs \<and> list_all2 Q (map snd fs) (map snd gs))"
| "children_rel Q (Mapping a kvs) (Mapping a' kvs') =
     (a' = a \<and> map fst kvs' = map fst kvs \<and> list_all2 Q (map snd kvs) (map snd kvs'))"
| "children_rel Q _ _ = False"

text \<open>
  A Python dictionary has each key once, and a namedtuple each field once; the items of a
  \<open>Mapping\<close> are a list, so this is said of a value where it matters.
\<close>

fun unique_keys :: "'a struct \<Rightarrow> bool" where
  "unique_keys (Atom a t v) = True"
| "unique_keys (Seq a k xs) = list_all unique_keys xs"
| "unique_keys (NamedTuple a n fs) =
     (distinct (map fst fs) \<and> list_all (\<lambda>(f, x). unique_keys x) fs)"
| "unique_keys (Mapping a kvs) =
     (distinct (map fst kvs) \<and> list_all (\<lambda>(key, x). unique_keys x) kvs)"

text \<open>The nodes of a structure, itself included.\<close>

fun substructures :: "'a struct \<Rightarrow> 'a struct list" where
  "substructures (Atom a t v) = [Atom a t v]"
| "substructures (Seq a k xs) = Seq a k xs # concat (map substructures xs)"
| "substructures (NamedTuple a n fs) =
     NamedTuple a n fs # concat (map (\<lambda>(f, x). substructures x) fs)"
| "substructures (Mapping a kvs) =
     Mapping a kvs # concat (map (\<lambda>(key, x). substructures x) kvs)"

text \<open>
  The tensor that \<^verbatim>\<open>tf.convert_to_tensor\<close> makes of a nested structure taken as a
  whole, under the name and without a dtype, when the structure is one the engine tries
  as a whole (it is not a namedtuple, or it is force-leaf) and the conversion returns.
\<close>

definition whole_conversion :: "('a, 'd) converter \<Rightarrow> string option \<Rightarrow> 'a struct \<Rightarrow> 'a option" where
  "whole_conversion conv name s =
     (if is_nested s \<and> maybe_convertible_to_tensor s
      then (case conv s None None name of Inr t \<Rightarrow> Some t | Inl e \<Rightarrow> None)
      else None)"

text \<open>
  The shape to expect of a conversion that returns: the shape of the structure, cut at
  the outermost nested nodes of which \<open>whole_conversion\<close> makes a tensor.
\<close>

fun expected_shape :: "('a, 'd) converter \<Rightarrow> string option \<Rightarrow> 'a struct \<Rightarrow> shape" where
  "expected_shape conv name (Atom a t v) = LeafShape"
| "expected_shape conv name (Seq a k xs) =
     (case whole_conversion conv name (Seq a k xs) of
        Some t \<Rightarrow> LeafShape
      | None \<Rightarrow> SeqShape a k (map (expected_shape conv name) xs))"
| "expected_shape conv name (NamedTuple a n fs) =
     (case whole_conversion conv name (NamedTuple a n fs) of
        Some t \<Rightarrow> LeafShape
      | None \<Rightarrow> NamedTupleShape a n (map (\<lambda>(f, x). (f, expected_shape conv name x)) fs))"
| "expected_shape conv name (Mapping a kvs) =
     (case whole_conversion conv name (Mapping a kvs) of
        Some t \<Rightarrow> LeafShape
      | None \<Rightarrow> MappingShape a (map (\<lambda>(key, x). (key, expected_shape conv name x)) kvs))"

text \<open>
  The tensors to expect at the leaves of a conversion that returns, in the order of
  \<^verbatim>\<open>tf.nest.flatten\<close>: the conversion, without a name, of each atom, and the whole
  conversion of each node at which the shape is cut.
\<close>

function converted_leaves :: "('a, 'd) converter \<Rightarrow> string option \<Rightarrow> 'a struct \<Rightarrow> 'a list" where
  "converted_leaves conv name s =
     (if \<not> is_nested s then
        (case conv s None None None of Inr t \<Rightarrow> [t] | Inl e \<Rightarrow> [])
      else
        (case whole_conversion conv name s of
           Some t \<Rightarrow> [t]
         | None \<Rightarrow> concat (map (converted_leaves conv name) (yield_value s))))"
  by pat_completeness auto

termination converted_leaves
  by (relation "measure (\<lambda>(conv, n, s). size s)") (auto simp: size_yield_value)

declare converted_leaves.simps [simp del]

text \<open>
  A call of the leaf converter either has no name, or has the name given, is on a nested
  value and has no dtype.
\<close>

definition named_only_whole :: "string option \<Rightarrow> ('a, 'd) tf_call \<Rightarrow> bool" where
  "named_only_whole name c =
     (call_name c = None
      \<or> (call_name c = name \<and> is_nested (call_value c) \<and> call_dtype c = None))"


section \<open>A sample leaf converter\<close>

text \<open>
  Concrete inputs need a concrete converter. The contents of a Python number or of a
  tensor are a number or an array of contents; \<open>sample_converter\<close> converts an atom to its
  contents and a list, a tuple or a namedtuple of convertible elements of equal
  dimensions to the array of their conversions, as \<^verbatim>\<open>tf.convert_to_tensor\<close> stacks
  them, and raises \<^verbatim>\<open>ValueError\<close> on ragged sequences and on dictionaries. \<open>raising e\<close>
  is the converter that always raises \<open>e\<close>.
\<close>

datatype py = Num int | Arr "py list"

fun dims :: "py \<Rightarrow> nat list" where
  "dims (Num i) = []"
| "dims (Arr []) = [0]"
| "dims (Arr (x # xs)) = Suc (length xs) # dims x"

fun those_all :: "'x option list \<Rightarrow> 'x list option" where
  "those_all [] = Some []"
| "those_all (None # xs) = None"
| "those_all (Some x # xs) = (case those_all xs of None \<Rightarrow> None | Some ys \<Rightarrow> Some (x # ys))"

fun stack :: "py list \<Rightarrow> py option" where
  "stack [] = Some (Arr [])"
| "stack (x # xs) = (if list_all (\<lambda>y. dims y = dims x) xs then Some (Arr (x # xs)) else None)"

fun to_array :: "py struct \<Rightarrow> py option" where
  "to_array (Atom a t v) = Some v"
| "to_array (Seq a k xs) =
     (case those_all (map to_array xs) of None \<Rightarrow> None | Some ys \<Rightarrow> stack ys)"
| "to_array (NamedTuple a n fs) =
     (case those_all (map (\<lambda>(f, x). to_array x) fs) of None \<Rightarrow> None | Some ys \<Rightarrow> stack ys)"
| "to_array (Mapping a kvs) = None"

definition sample_converter :: "(py, 'd) converter" where
  "sample_converter v dtype dtype_hint name =
     (case to_array v of
        None \<Rightarrow> Inl (ValueError ''Can't convert Python sequence to Tensor.'')
      | Some t \<Rightarrow> Inr t)"

definition raising :: "'a py_error \<Rightarrow> ('a, 'd) converter" where
  "raising e v dtype dtype_hint name = Inl e"

abbreviation (input) num :: "int \<Rightarrow> py struct" where
  "num i \<equiv> Atom no_attrs PyObject (Num i)"

abbreviation (input) tensor :: "py \<Rightarrow> py struct" where
  "tensor t \<equiv> Atom no_attrs PyTensor t"

abbreviation (input) pylist :: "'a struct list \<Rightarrow> 'a struct" where
  "pylist xs \<equiv> Seq no_attrs PyList xs"

abbreviation (input) pystr :: "string \<Rightarrow> string struct" where
  "pystr s \<equiv> Atom no_attrs PyStr s"

section \<open>Call convention and classification\<close>

text \<open>
  Claim C4, as amended. \<^verbatim>\<open>call_fn\<close> invokes the callee in exactly one of three ways and
  returns what that invocation returns: \<^verbatim>\<open>fn(*args)\<close> when \<^verbatim>\<open>expand_as_args(args)\<close>
  holds, that is when \<open>args\<close> is a sequence that is neither a namedtuple nor force-leaf,
  or when \<open>args\<close> carries the force-positional attribute (whatever its kind, and also
  when it carries force-leaf as well); \<^verbatim>\<open>fn(**args)\<close> when that does not hold and
  \<open>args\<close> is a mapping without force-leaf; \<^verbatim>\<open>fn(args)\<close> otherwise.
\<close>

theorem call_fn_three_ways:
  "((is_Sequence args \<and> \<not> is_namedtuple args \<and> \<not> force_leaf args) \<or> force_expand_as_args args
      \<longrightarrow> call_fn fn args = fn (StarArgs args))
   \<and> (\<not> ((is_Sequence args \<and> \<not> is_namedtuple args \<and> \<not> force_leaf args)
           \<or> force_expand_as_args args) \<and> is_Mapping args \<and> \<not> force_leaf args
      \<longrightarrow> call_fn fn args = fn (StarStarKwargs args))
   \<and> (\<not> ((is_Sequence args \<and> \<not> is_namedtuple args \<and> \<not> force_leaf args)
           \<or> force_expand_as_args args) \<and> \<not> (is_Mapping args \<and> \<not> force_leaf args)
      \<longrightarrow> call_fn fn args = fn (SingleArg args))
   \<and> (\<exists>!i. i \<in> {StarArgs args, StarStarKwargs args, SingleArg args}
           \<and> (\<forall>g :: 'a invocation \<Rightarrow> 'a invocation. call_fn g args = g i))"
proof -
  have one: "\<exists>!i. i \<in> {StarArgs args, StarStarKwargs args, SingleArg args}
           \<and> (\<forall>g :: 'a invocation \<Rightarrow> 'a invocation. call_fn g args = g i)"
  proof (rule ex1I [of _ "call_fn (\<lambda>i. i) args"])
    show "call_fn (\<lambda>i. i) args \<in> {StarArgs args, StarStarKwargs args, SingleArg args}
          \<and> (\<forall>g :: 'a invocation \<Rightarrow> 'a invocation. call_fn g args = g (call_fn (\<lambda>i. i) args))"
      by (simp add: call_fn_def)
  next
    fix i :: "'a invocation"
    assume "i \<in> {StarArgs args, StarStarKwargs args, SingleArg args}
            \<and> (\<forall>g :: 'a invocation \<Rightarrow> 'a invocation. call_fn g args = g i)"
    then have "call_fn (\<lambda>i. i) args = i" by blast
    then show "i = call_fn (\<lambda>i. i) args" by simp
  qed
  show ?thesis
    using one by (simp add: call_fn_def expand_as_args_def expand_as_kwargs_def)
qed

text \<open>
  The three cases at concrete bundles: the list \<^verbatim>\<open>[1, 2]\<close>, the dictionary
  \<^verbatim>\<open>{'x': 1}\<close> and the number \<^verbatim>\<open>5\<close>.
\<close>

theorem call_fn_three_ways_witness:
  "call_fn (\<lambda>i. i) (Seq no_attrs PyList [Atom no_attrs PyObject (1::int), Atom no_attrs PyObject 2])
     = StarArgs (Seq no_attrs PyList [Atom no_attrs PyObject 1, Atom no_attrs PyObject 2])
   \<and> call_fn (\<lambda>i. i) (Mapping no_attrs [(''x'', Atom no_attrs PyObject (1::int))])
     = StarStarKwargs (Mapping no_attrs [(''x'', Atom no_attrs PyObject 1)])
   \<and> call_fn (\<lambda>i. i) (Atom no_attrs PyObject (5::int)) = SingleArg (Atom no_attrs PyObject 5)"
  using call_fn_three_ways [of "Seq no_attrs PyList [Atom no_attrs PyObject (1::int), Atom no_attrs PyObject 2]" "\<lambda>i. i"]
    call_fn_three_ways [of "Mapping no_attrs [(''x'', Atom no_attrs PyObject (1::int))]" "\<lambda>i. i"]
    call_fn_three_ways [of "Atom no_attrs PyObject (5::int)" "\<lambda>i. i"]
  by (simp add: force_leaf_def force_expand_as_args_def no_attrs_def)

text \<open>
  Claim C4 as stated fails: a tuple (subclass) that carries both attributes is force-leaf,
  so the claim passes it as the single argument, yet \<^verbatim>\<open>call_fn\<close> expands it
  positionally.
\<close>

theorem call_fn_force_leaf_counterexample:
  "force_leaf (Seq \<lparr>tfp_nest_expansion_force_leaf = True, tfp_nest_expansion_force_args = True\<rparr>
                 PyTuple [Atom no_attrs PyObject (1::int), Atom no_attrs PyObject 2])
   \<and> call_fn id
        (Seq \<lparr>tfp_nest_expansion_force_leaf = True, tfp_nest_expansion_force_args = True\<rparr>
           PyTuple [Atom no_attrs PyObject (1::int), Atom no_attrs PyObject 2])
     = StarArgs (Seq \<lparr>tfp_nest_expansion_force_leaf = True, tfp_nest_expansion_force_args = True\<rparr>
                  PyTuple [Atom no_attrs PyObject 1, Atom no_attrs PyObject 2])
   \<and> call_fn id
        (Seq \<lparr>tfp_nest_expansion_force_leaf = True, tfp_nest_expansion_force_args = True\<rparr>
           PyTuple [Atom no_attrs PyObject (1::int), Atom no_attrs PyObject 2])
     \<noteq> SingleArg (Seq \<lparr>tfp_nest_expansion_force_leaf = True, tfp_nest_expansion_force_args = True\<rparr>
                  PyTuple [Atom no_attrs PyObject 1, Atom no_attrs PyObject 2])"
  by (simp add: call_fn_def expand_as_args_def force_leaf_def force_expand_as_args_def)

text \<open>
  Claim C7, as amended. A value that carries force-leaf and not force-positional is
  neither positionally nor keyword expanded, whatever its runtime kind: \<^verbatim>\<open>call_fn\<close>
  passes it as the single argument. Keyword expansion never applies to a force-leaf value.
  When force-positional is present as well, \<^verbatim>\<open>expand_as_args\<close> holds and the value is
  expanded positionally: the force-positional disjunct of \<^verbatim>\<open>expand_as_args\<close> does not
  look at force-leaf.
\<close>

theorem force_leaf_expansion:
  "force_leaf v \<Longrightarrow>
     \<not> expand_as_kwargs v
     \<and> expand_as_args v = force_expand_as_args v
     \<and> (\<not> force_expand_as_args v \<longrightarrow> call_fn fn v = fn (SingleArg v))
     \<and> (force_expand_as_args v \<longrightarrow> call_fn fn v = fn (StarArgs v))"
  by (simp add: call_fn_def expand_as_args_def expand_as_kwargs_def)

theorem force_leaf_expansion_witness:
  "force_leaf (Seq \<lparr>tfp_nest_expansion_force_leaf = True, tfp_nest_expansion_force_args = False\<rparr>
                 PyList [Atom no_attrs PyObject (1::int)])
   \<and> \<not> expand_as_args (Seq \<lparr>tfp_nest_expansion_force_leaf = True, tfp_nest_expansion_force_args = False\<rparr>
                 PyList [Atom no_attrs PyObject (1::int)])
   \<and> \<not> expand_as_kwargs (Mapping \<lparr>tfp_nest_expansion_force_leaf = True, tfp_nest_expansion_force_args = False\<rparr>
                 [(''x'', Atom no_attrs PyObject (1::int))])
   \<and> call_fn (\<lambda>i. i) (Mapping \<lparr>tfp_nest_expansion_force_leaf = True, tfp_nest_expansion_force_args = False\<rparr>
                 [(''x'', Atom no_attrs PyObject (1::int))])
     = SingleArg (Mapping \<lparr>tfp_nest_expansion_force_leaf = True, tfp_nest_expansion_force_args = False\<rparr>
                 [(''x'', Atom no_attrs PyObject 1)])"
  using force_leaf_expansion [of "Seq \<lparr>tfp_nest_expansion_force_leaf = True, tfp_nest_expansion_force_args = False\<rparr>
                 PyList [Atom no_attrs PyObject (1::int)]" "\<lambda>i. i"]
    force_leaf_expansion [of "Mapping \<lparr>tfp_nest_expansion_force_leaf = True, tfp_nest_expansion_force_args = False\<rparr>
                 [(''x'', Atom no_attrs PyObject (1::int))]" "\<lambda>i. i"]
  by (simp add: force_leaf_def force_expand_as_args_def)

text \<open>
  Claim C7 as stated fails: a dictionary (subclass) that carries both attributes is
  force-leaf, and \<^verbatim>\<open>expand_as_args\<close> holds of it, so \<^verbatim>\<open>call_fn\<close> expands it positionally.
\<close>

theorem force_leaf_priority_counterexample:
  "force_leaf (Mapping \<lparr>tfp_nest_expansion_force_leaf = True, tfp_nest_expansion_force_args = True\<rparr>
                 [(''x'', Atom no_attrs PyObject (1::int))])
   \<and> expand_as_args (Mapping \<lparr>tfp_nest_expansion_force_leaf = True, tfp_nest_expansion_force_args = True\<rparr>
                 [(''x'', Atom no_attrs PyObject (1::int))])
   \<and> call_fn id (Mapping \<lparr>tfp_nest_expansion_force_leaf = True, tfp_nest_expansion_force_args = True\<rparr>
                 [(''x'', Atom no_attrs PyObject (1::int))])
     = StarArgs (Mapping \<lparr>tfp_nest_expansion_force_leaf = True, tfp_nest_expansion_force_args = True\<rparr>
                 [(''x'', Atom no_attrs PyObject 1)])"
  by (simp add: call_fn_def expand_as_args_def force_leaf_def force_expand_as_args_def)

text \<open>
  Claim C8. A namedtuple is a \<^verbatim>\<open>collections.Sequence\<close>, yet without the
  force-positional attribute neither \<^verbatim>\<open>expand_as_args\<close> nor \<^verbatim>\<open>_expand_as_kwargs\<close>
  holds of it and \<^verbatim>\<open>call_fn\<close> passes it as the single argument; with the
  force-positional attribute \<^verbatim>\<open>expand_as_args\<close> holds and it is expanded positionally.
\<close>

theorem namedtuple_expansion:
  "is_namedtuple v \<Longrightarrow>
     is_Sequence v
     \<and> \<not> expand_as_kwargs v
     \<and> (\<not> force_expand_as_args v \<longrightarrow>
            \<not> expand_as_args v \<and> call_fn fn v = fn (SingleArg v))
     \<and> (force_expand_as_args v \<longrightarrow>
            expand_as_args v \<and> call_fn fn v = fn (StarArgs v))"
  by (cases v) (simp_all add: call_fn_def expand_as_args_def expand_as_kwargs_def)

theorem namedtuple_expansion_witness:
  "is_namedtuple (NamedTuple no_attrs ''Point'' [(''x'', Atom no_attrs PyObject (1::int)), (''y'', Atom no_attrs PyObject 2)])
   \<and> \<not> expand_as_args (NamedTuple no_attrs ''Point'' [(''x'', Atom no_attrs PyObject (1::int)), (''y'', Atom no_attrs PyObject 2)])
   \<and> call_fn (\<lambda>i. i) (NamedTuple no_attrs ''Point'' [(''x'', Atom no_attrs PyObject (1::int)), (''y'', Atom no_attrs PyObject 2)])
     = SingleArg (NamedTuple no_attrs ''Point'' [(''x'', Atom no_attrs PyObject 1), (''y'', Atom no_attrs PyObject 2)])
   \<and> call_fn (\<lambda>i. i)
        (NamedTuple \<lparr>tfp_nest_expansion_force_leaf = False, tfp_nest_expansion_force_args = True\<rparr>
           ''Point'' [(''x'', Atom no_attrs PyObject (1::int)), (''y'', Atom no_attrs PyObject 2)])
     = StarArgs
        (NamedTuple \<lparr>tfp_nest_expansion_force_leaf = False, tfp_nest_expansion_force_args = True\<rparr>
           ''Point'' [(''x'', Atom no_attrs PyObject 1), (''y'', Atom no_attrs PyObject 2)])"
  using namedtuple_expansion [of "NamedTuple no_attrs ''Point'' [(''x'', Atom no_attrs PyObject (1::int)), (''y'', Atom no_attrs PyObject 2)]" "\<lambda>i. i"]
    namedtuple_expansion [of "NamedTuple \<lparr>tfp_nest_expansion_force_leaf = False, tfp_nest_expansion_force_args = True\<rparr>
           ''Point'' [(''x'', Atom no_attrs PyObject (1::int)), (''y'', Atom no_attrs PyObject 2)]" "\<lambda>i. i"]
  by (simp add: force_expand_as_args_def no_attrs_def)

section \<open>Broadcasting a singleton\<close>

lemma concat_map_replicate:
  "(\<And>v. v \<in> set vs \<Longrightarrow> g v = replicate (n v) x)
   \<Longrightarrow> concat (map g vs) = replicate (sum_list (map n vs)) x"
  by (induction vs) (simp_all add: replicate_add)

lemma flatten_not_nested: "y \<in> set (flatten s) \<Longrightarrow> \<not> is_nested y"
  by (induction s arbitrary: y rule: flatten.induct) auto

lemma shape_of_not_nested: "\<not> is_nested y \<Longrightarrow> shape_of y = LeafShape"
  by (cases y) simp_all

lemma shape_of_map_structure:
  "(\<And>y. \<not> is_nested (func y)) \<Longrightarrow> shape_of (map_structure func s) = shape_of s"
  by (induction s) (auto simp: shape_of_not_nested snds.simps)

lemma flatten_map_structure_const:
  "\<not> is_nested x \<Longrightarrow> flatten (map_structure (\<lambda>_. x) s) = replicate (length (flatten s)) x"
proof (induction s)
  case (Atom a t v)
  then show ?case by (cases x) simp_all
next
  case (Seq a k xs)
  then have "concat (map (\<lambda>s. flatten (map_structure (\<lambda>_. x) s)) xs)
      = replicate (sum_list (map (\<lambda>s. length (flatten s)) xs)) x"
    by (intro concat_map_replicate) simp
  then show ?case
    by (simp add: comp_def length_concat)
next
  case (NamedTuple a n fs)
  then have "concat (map (\<lambda>p. flatten (map_structure (\<lambda>_. x) (snd p))) fs)
      = replicate (sum_list (map (\<lambda>p. length (flatten (snd p))) fs)) x"
    by (intro concat_map_replicate) (auto simp: snds.simps)
  then show ?case
    by (simp add: comp_def case_prod_beta length_concat)
next
  case (Mapping a kvs)
  have *: "sort_key fst (map (\<lambda>(key, s). (key, map_structure (\<lambda>_. x) s)) kvs)
        = map (\<lambda>(key, s). (key, map_structure (\<lambda>_. x) s)) (sort_key fst kvs)"
    using sort_key_map_commute [of fst "\<lambda>(key, s). (key, map_structure (\<lambda>_. x) s)" fst kvs]
    by (simp add: case_prod_beta)
  from Mapping
  have "concat (map (\<lambda>p. flatten (map_structure (\<lambda>_. x) (snd p))) (sort_key fst kvs))
      = replicate (sum_list (map (\<lambda>p. length (flatten (snd p))) (sort_key fst kvs))) x"
    by (intro concat_map_replicate) (auto simp: snds.simps)
  then show ?case
    by (simp add: * comp_def case_prod_beta length_concat)
qed

text \<open>
  Claim C2. When the source flattens to exactly one leaf \<open>x\<close>, \<^verbatim>\<open>broadcast_structure\<close>
  returns a structure with the shape of the template whose leaves are all that same \<open>x\<close>:
  one \<open>x\<close> for each leaf of the template, nothing being copied (the function that fills
  the positions returns \<open>x\<close> itself; the leaf type is arbitrary, so this holds of
  references as of values). When the source flattens to any other number of leaves it is
  returned unchanged. In particular \<^verbatim>\<open>broadcast_structure(['a','b','c'], 'd')\<close> is
  \<^verbatim>\<open>['d','d','d']\<close>.
\<close>

theorem broadcast_structure_spec:
  "(\<forall>x. flatten S = [x] \<longrightarrow>
        shape_of (broadcast_structure T S) = shape_of T
      \<and> flatten (broadcast_structure T S) = replicate (length (flatten T)) x)
   \<and> (length (flatten S) \<noteq> 1 \<longrightarrow> broadcast_structure T S = S)
   \<and> broadcast_structure (pylist [pystr ''a'', pystr ''b'', pystr ''c'']) (pystr ''d'')
      = pylist [pystr ''d'', pystr ''d'', pystr ''d'']"
proof (intro conjI allI impI)
  fix x assume fl: "flatten S = [x]"
  then have nn: "\<not> is_nested x" using flatten_not_nested [of x S] by simp
  have b: "broadcast_structure T S = map_structure (\<lambda>_. x) T"
    using fl by (simp add: broadcast_structure_def)
  show "shape_of (broadcast_structure T S) = shape_of T"
    unfolding b using nn by (intro shape_of_map_structure)
  show "flatten (broadcast_structure T S) = replicate (length (flatten T)) x"
    unfolding b using nn by (rule flatten_map_structure_const)
next
  assume "length (flatten S) \<noteq> 1"
  then show "broadcast_structure T S = S" by (simp add: broadcast_structure_def)
next
  show "broadcast_structure (pylist [pystr ''a'', pystr ''b'', pystr ''c'']) (pystr ''d'')
      = pylist [pystr ''d'', pystr ''d'', pystr ''d'']"
    by (simp add: broadcast_structure_def)
qed

text \<open>
  The template \<^verbatim>\<open>{'b': 1, 'a': (2, 3)}\<close> with the source \<^verbatim>\<open>['d']\<close>, which flattens to
  one leaf, and with the source \<^verbatim>\<open>['x', 'y']\<close>, which does not.
\<close>

theorem broadcast_structure_spec_witness:
  "flatten (pylist [pystr ''d'']) = [pystr ''d'']
   \<and> shape_of (broadcast_structure
        (Mapping no_attrs [(''b'', num 1), (''a'', Seq no_attrs PyTuple [num 2, num 3])])
        (pylist [pystr ''d'']))
      = MappingShape no_attrs
          [(''b'', LeafShape), (''a'', SeqShape no_attrs PyTuple [LeafShape, LeafShape])]
   \<and> flatten (broadcast_structure
        (Mapping no_attrs [(''b'', num 1), (''a'', Seq no_attrs PyTuple [num 2, num 3])])
        (pylist [pystr ''d'']))
      = [pystr ''d'', pystr ''d'', pystr ''d'']
   \<and> length (flatten (pylist [pystr ''x'', pystr ''y''])) \<noteq> 1
   \<and> broadcast_structure
        (Mapping no_attrs [(''b'', num 1), (''a'', Seq no_attrs PyTuple [num 2, num 3])])
        (pylist [pystr ''x'', pystr ''y''])
      = pylist [pystr ''x'', pystr ''y'']"
  using broadcast_structure_spec
      [of "pylist [pystr ''d'']"
          "Mapping no_attrs [(''b'', num 1), (''a'', Seq no_attrs PyTuple [num 2, num 3])]"]
    broadcast_structure_spec
      [of "pylist [pystr ''x'', pystr ''y'']"
          "Mapping no_attrs [(''b'', num 1), (''a'', Seq no_attrs PyTuple [num 2, num 3])]"]
  by (simp add: numeral_3_eq_3)

text \<open>
  Claim C9. For a source that flattens to exactly one leaf, broadcasting the broadcast
  source again onto the same template changes nothing.
\<close>

theorem broadcast_structure_idempotent:
  "length (flatten S) = 1 \<Longrightarrow>
     broadcast_structure T (broadcast_structure T S) = broadcast_structure T S"
proof -
  assume "length (flatten S) = 1"
  then obtain x where fl: "flatten S = [x]"
    by (cases "flatten S") simp_all
  then have nn: "\<not> is_nested x" using flatten_not_nested [of x S] by simp
  have b: "broadcast_structure T S = map_structure (\<lambda>_. x) T"
    using fl by (simp add: broadcast_structure_def)
  have f: "flatten (map_structure (\<lambda>_. x) T) = replicate (length (flatten T)) x"
    using nn by (rule flatten_map_structure_const)
  show ?thesis
  proof (cases "length (flatten T) = 1")
    case True
    then show ?thesis unfolding b by (simp add: broadcast_structure_def f)
  next
    case False
    then show ?thesis unfolding b by (simp add: broadcast_structure_def f)
  qed
qed

theorem broadcast_structure_idempotent_witness:
  "length (flatten (pystr ''d'')) = 1
   \<and> broadcast_structure (pylist [pystr ''a'', pystr ''b'', pystr ''c''])
        (broadcast_structure (pylist [pystr ''a'', pystr ''b'', pystr ''c'']) (pystr ''d''))
      = pylist [pystr ''d'', pystr ''d'', pystr ''d'']
   \<and> broadcast_structure (pylist [pystr ''a'', pystr ''b'', pystr ''c'']) (pystr ''d'')
      = pylist [pystr ''d'', pystr ''d'', pystr ''d'']"
  using broadcast_structure_idempotent
      [of "pystr ''d''" "pylist [pystr ''a'', pystr ''b'', pystr ''c'']"]
  by (simp add: broadcast_structure_def)

section \<open>Converting the children of a node\<close>

lemma traverse_Inr:
  "traverse f xs = (Inr rs, calls)
   \<Longrightarrow> list_all2 (\<lambda>x r. fst (f x) = Inr r) xs rs \<and> calls = concat (map (\<lambda>x. snd (f x)) xs)"
  by (induction xs arbitrary: rs calls) (auto split: prod.splits sum.splits)

lemma traverse_calls:
  "c \<in> set (snd (traverse f xs)) \<Longrightarrow> \<exists>x \<in> set xs. c \<in> set (snd (f x))"
  by (induction xs) (auto split: prod.splits sum.splits)

lemma traverse_all_Inr:
  "(\<And>x. x \<in> set xs \<Longrightarrow> \<exists>y. fst (f x) = Inr y) \<Longrightarrow> \<exists>rs. fst (traverse f xs) = Inr rs"
proof (induction xs)
  case (Cons x xs)
  then obtain y where "fst (f x) = Inr y" by auto
  moreover from Cons obtain rs where "fst (traverse f xs) = Inr rs" by auto
  ultimately show ?case by (auto split: prod.splits sum.splits)
qed simp

lemma traverse_shallow_leaves:
  "traverse (\<lambda>(s, i). map_up_to s (\<lambda>_. f) i) (zip (map (\<lambda>_. Atom a t v) xs) xs) = traverse f xs"
  by (induction xs) (simp_all split: prod.splits sum.splits)

lemma first_error_None: "\<forall>x \<in> set xs. x = None \<Longrightarrow> first_error xs = None"
  by (induction xs) auto

lemma assert_shallow_structure_get_shallow_structure:
  "assert_shallow_structure c (get_shallow_structure (s :: 'a struct)) s
     = (None :: 'e py_error option)"
proof (cases "is_nested s")
  case False
  then show ?thesis
    by (subst assert_shallow_structure.simps) (simp add: is_nested_get_shallow_structure)
next
  case True
  have ty: "instance_of_type_of s (get_shallow_structure s)"
    using True
    by (cases s) (simp_all add: get_shallow_structure_def comp_def case_prod_beta)
  have keys: "keys_of (get_shallow_structure s) = keys_of s"
    by (cases s) (simp_all add: get_shallow_structure_def comp_def case_prod_beta)
  have ch: "first_error (map (\<lambda>(sb, ib). assert_shallow_structure c sb ib)
              (zip (map (\<lambda>_. Atom no_attrs PyObject False :: bool struct) xs) xs))
            = (None :: 'e py_error option)"
    for xs :: "'a struct list"
    by (rule first_error_None) (auto simp: assert_shallow_structure.simps dest!: set_zip_leftD)
  show ?thesis
    using True ty keys ch [of "yield_value s"]
    by (subst assert_shallow_structure.simps)
       (simp add: is_nested_get_shallow_structure yield_value_get_shallow_structure)
qed

lemma dict_like_keys:
  "map fst kvs' = map fst kvs \<Longrightarrow> map fst (sort_key fst kvs') = map fst (sort_key fst kvs)
   \<Longrightarrow> dict_like kvs' rs = dict_like kvs rs"
proof -
  assume k: "map fst kvs' = map fst kvs"
    and s: "map fst (sort_key fst kvs') = map fst (sort_key fst kvs)"
  have "map (\<lambda>(key, _). (key, g key)) kvs' = map (\<lambda>key. (key, g key)) (map fst kvs')"
    for g :: "string \<Rightarrow> 'c"
    by (simp add: comp_def case_prod_beta)
  moreover have "map (\<lambda>(key, _). (key, g key)) kvs = map (\<lambda>key. (key, g key)) (map fst kvs)"
    for g :: "string \<Rightarrow> 'c"
    by (simp add: comp_def case_prod_beta)
  ultimately show ?thesis
    unfolding dict_like_def Let_def s using k by simp
qed

text \<open>
  What \<^verbatim>\<open>nest.map_structure_up_to(_get_shallow_structure(struct), func, struct)\<close> does,
  for each kind of container: \<open>func\<close> is applied to the children in the order of the
  traversal, and the results are put back in the container.
\<close>

lemma map_structure_up_to_Seq:
  "map_structure_up_to (get_shallow_structure (Seq a k xs)) f (Seq a k xs) =
     (case traverse f xs of
        (Inl e, calls) \<Rightarrow> (Inl e, calls)
      | (Inr rs, calls) \<Rightarrow> (Inr (Seq a k rs), calls))"
  unfolding map_structure_up_to_def assert_shallow_structure_get_shallow_structure
  by (simp add: get_shallow_structure_Seq traverse_shallow_leaves)

lemma map_structure_up_to_NamedTuple:
  "map_structure_up_to (get_shallow_structure (NamedTuple a n fs)) f (NamedTuple a n fs) =
     (case traverse f (map snd fs) of
        (Inl e, calls) \<Rightarrow> (Inl e, calls)
      | (Inr rs, calls) \<Rightarrow> (Inr (NamedTuple a n (zip (map fst fs) rs)), calls))"
proof -
  have "traverse (\<lambda>(s, i). map_up_to s (\<lambda>_. f) i)
          (zip (map (\<lambda>x. Atom no_attrs PyObject False :: bool struct) fs) (map snd fs))
        = traverse f (map snd fs)"
    using traverse_shallow_leaves [of f no_attrs PyObject False "map snd fs"]
    by (simp add: comp_def)
  then show ?thesis
    unfolding map_structure_up_to_def assert_shallow_structure_get_shallow_structure
    by (simp add: get_shallow_structure_NamedTuple comp_def case_prod_beta
          split: prod.splits sum.splits)
qed

lemma map_structure_up_to_Mapping:
  "map_structure_up_to (get_shallow_structure (Mapping a kvs)) f (Mapping a kvs) =
     (case traverse f (map snd (sort_key fst kvs)) of
        (Inl e, calls) \<Rightarrow> (Inl e, calls)
      | (Inr rs, calls) \<Rightarrow> (Inr (Mapping a (dict_like kvs rs)), calls))"
proof -
  let ?kvs' = "map (\<lambda>(key, x). (key, Atom no_attrs PyObject False :: bool struct)) kvs"
  have tr: "traverse (\<lambda>(s, i). map_up_to s (\<lambda>_. f) i)
          (zip (map snd (sort_key fst ?kvs')) (map snd (sort_key fst kvs)))
        = traverse f (map snd (sort_key fst kvs))"
    using traverse_shallow_leaves [of f no_attrs PyObject False "map snd (sort_key fst kvs)"]
    by (simp add: sort_key_shallow_items comp_def case_prod_beta)
  have dl: "dict_like ?kvs' rs = dict_like kvs rs" for rs :: "'d list"
    by (rule dict_like_keys) (simp_all add: sort_key_shallow_items comp_def case_prod_beta)
  show ?thesis
    unfolding map_structure_up_to_def assert_shallow_structure_get_shallow_structure
    by (simp add: get_shallow_structure_Mapping tr dl split: prod.splits sum.splits)
qed

lemma map_structure_up_to_children_calls:
  "is_nested s \<Longrightarrow>
     snd (map_structure_up_to (get_shallow_structure s) f s) = snd (traverse f (yield_value s))"
  by (cases s)
     (simp_all add: map_structure_up_to_Seq map_structure_up_to_NamedTuple
        map_structure_up_to_Mapping split: prod.splits sum.splits)

lemma map_structure_up_to_children_Inl:
  "is_nested s \<Longrightarrow> fst (traverse f (yield_value s)) = Inl e
   \<Longrightarrow> fst (map_structure_up_to (get_shallow_structure s) f s) = Inl e"
  by (cases s)
     (auto simp: map_structure_up_to_Seq map_structure_up_to_NamedTuple
        map_structure_up_to_Mapping split: prod.splits sum.splits)

lemma nested_convert_to_tensor_leaf:
  "\<not> is_nested struct \<Longrightarrow>
     nested_convert_to_tensor conv struct dtype name = convert_to_tensor conv struct dtype None None"
  by (simp add: nested_convert_to_tensor.simps)

lemma nested_convert_to_tensor_nested:
  "is_nested struct \<Longrightarrow>
   nested_convert_to_tensor conv struct None name =
     (if maybe_convertible_to_tensor struct then
        (case conv struct None None name of
           Inr t \<Rightarrow> (Inr (Atom no_attrs PyTensor t), [ConvertToTensor struct None None name])
         | Inl e \<Rightarrow>
             if caught e then
               (case map_structure_up_to (get_shallow_structure struct)
                       (\<lambda>s. nested_convert_to_tensor conv s None name) struct of
                  (result, calls') \<Rightarrow> (result, ConvertToTensor struct None None name # calls'))
             else (Inl e, [ConvertToTensor struct None None name]))
      else
        map_structure_up_to (get_shallow_structure struct)
          (\<lambda>s. nested_convert_to_tensor conv s None name) struct)"
  by (subst nested_convert_to_tensor.simps)
     (simp add: convert_to_tensor_def split: sum.splits prod.splits)

lemma no_attrs_sel [simp]:
  "\<not> tfp_nest_expansion_force_leaf no_attrs" "\<not> tfp_nest_expansion_force_args no_attrs"
  by (simp_all add: no_attrs_def)

lemmas engine_eval =
  nested_convert_to_tensor_nested nested_convert_to_tensor_leaf
  map_structure_up_to_Seq map_structure_up_to_NamedTuple map_structure_up_to_Mapping
  convert_to_tensor_def sample_converter_def raising_def maybe_convertible_to_tensor_def
  force_leaf_def dict_like_def

section \<open>Conversion under a dtype, and where the name goes\<close>

text \<open>
  Claim C6. With a \<open>dtype\<close> that is not \<^verbatim>\<open>None\<close>, \<^verbatim>\<open>_nested_convert_to_tensor\<close> makes
  exactly one call of the leaf converter, on the whole value under that \<open>dtype\<close>, and
  returns what the call returns; it does not recurse, whether or not the value is nested.
\<close>

theorem nested_convert_to_tensor_with_dtype:
  "snd (nested_convert_to_tensor conv struct (Some d) name)
     = [ConvertToTensor struct (Some d) None None]
   \<and> fst (nested_convert_to_tensor conv struct (Some d) name)
       = (case conv struct (Some d) None None of
            Inl e \<Rightarrow> Inl e
          | Inr t \<Rightarrow> Inr (Atom no_attrs PyTensor t))"
  by (simp add: nested_convert_to_tensor.simps convert_to_tensor_def)

text \<open>The nested list \<^verbatim>\<open>[[1], [2]]\<close> under a dtype: one call, one tensor.\<close>

theorem nested_convert_to_tensor_with_dtype_witness:
  "snd (nested_convert_to_tensor sample_converter (pylist [pylist [num 1], pylist [num 2]])
          (Some ()) (Some ''x''))
     = [ConvertToTensor (pylist [pylist [num 1], pylist [num 2]]) (Some ()) None None]
   \<and> fst (nested_convert_to_tensor sample_converter (pylist [pylist [num 1], pylist [num 2]])
          (Some ()) (Some ''x''))
     = Inr (tensor (Arr [Arr [Num 1], Arr [Num 2]]))"
  using nested_convert_to_tensor_with_dtype
      [of sample_converter "pylist [pylist [num 1], pylist [num 2]]" "()" "Some ''x''"]
  by (simp add: sample_converter_def)

lemma map_up_to_calls:
  "c \<in> set (snd (map_up_to shallow_tree f input_tree))
   \<Longrightarrow> \<exists>v x. c \<in> set (snd (f v x))"
proof (induction shallow_tree f input_tree rule: map_up_to.induct)
  case (1 a t v func input_tree)
  then show ?case by auto
next
  case (2 a k ss func input_tree)
  let ?tr = "traverse (\<lambda>(s, i). map_up_to s func i) (zip ss (yield_value input_tree))"
  from "2.prems" have "c \<in> set (snd ?tr)" by (auto split: prod.splits sum.splits)
  then obtain p where "p \<in> set (zip ss (yield_value input_tree))"
      and "c \<in> set (snd ((\<lambda>(s, i). map_up_to s func i) p))"
    using traverse_calls by fastforce
  then show ?case using "2.IH" [of p "fst p" "snd p"] by (auto simp: case_prod_beta)
next
  case (3 a n fs func input_tree)
  let ?tr = "traverse (\<lambda>(s, i). map_up_to s func i) (zip (map snd fs) (yield_value input_tree))"
  from "3.prems" have "c \<in> set (snd ?tr)" by (auto split: prod.splits sum.splits)
  then obtain p where "p \<in> set (zip (map snd fs) (yield_value input_tree))"
      and "c \<in> set (snd ((\<lambda>(s, i). map_up_to s func i) p))"
    using traverse_calls by fastforce
  then show ?case using "3.IH" [of p "fst p" "snd p"] by (auto simp: case_prod_beta)
next
  case (4 a kvs func input_tree)
  let ?tr = "traverse (\<lambda>(s, i). map_up_to s func i)
               (zip (map snd (sort_key fst kvs)) (yield_value input_tree))"
  from "4.prems" have "c \<in> set (snd ?tr)" by (auto split: prod.splits sum.splits)
  then obtain p where "p \<in> set (zip (map snd (sort_key fst kvs)) (yield_value input_tree))"
      and "c \<in> set (snd ((\<lambda>(s, i). map_up_to s func i) p))"
    using traverse_calls by fastforce
  then show ?case using "4.IH" [of p "fst p" "snd p"] by (auto simp: case_prod_beta)
qed

lemma map_structure_up_to_calls:
  "c \<in> set (snd (map_structure_up_to shallow_tree f input_tree)) \<Longrightarrow> \<exists>x. c \<in> set (snd (f x))"
  unfolding map_structure_up_to_def
  using map_up_to_calls [of c shallow_tree "\<lambda>_. f" input_tree]
  by (auto split: option.splits)

lemma map_structure_up_to_with_shallow_calls:
  "c \<in> set (snd (map_structure_up_to_with_shallow shallow_tree f input_tree))
   \<Longrightarrow> \<exists>x v. c \<in> set (snd (f x v))"
  unfolding map_structure_up_to_with_shallow_def
  using map_up_to_calls [of c shallow_tree "\<lambda>leaf s. f s leaf" input_tree]
  by (auto split: option.splits)

lemma nested_convert_to_tensor_calls:
  "c \<in> set (snd (nested_convert_to_tensor conv struct dtype name)) \<Longrightarrow> named_only_whole name c"
proof (induction struct arbitrary: dtype c rule: measure_induct_rule [of size])
  case (less struct)
  show ?case
  proof (cases "dtype \<noteq> None \<or> \<not> is_nested struct")
    case True
    with less.prems show ?thesis
      by (subst (asm) nested_convert_to_tensor.simps)
         (auto simp: convert_to_tensor_def named_only_whole_def)
  next
    case False
    then have n: "is_nested struct" and d: "dtype = None" by simp_all
    let ?f = "\<lambda>s. nested_convert_to_tensor conv s None name"
    let ?rec = "map_structure_up_to (get_shallow_structure struct) ?f struct"
    have whole: "named_only_whole name (ConvertToTensor struct None None name)"
      using n by (simp add: named_only_whole_def)
    have rec: "named_only_whole name c" if "c \<in> set (snd ?rec)"
    proof -
      from that n have "c \<in> set (snd (traverse ?f (yield_value struct)))"
        by (simp add: map_structure_up_to_children_calls)
      then obtain x where "x \<in> set (yield_value struct)" and "c \<in> set (snd (?f x))"
        using traverse_calls by fast
      then show ?thesis using less.IH [of x c None] size_yield_value [of x struct] by simp
    qed
    from less.prems have "c = ConvertToTensor struct None None name \<or> c \<in> set (snd ?rec)"
      unfolding d nested_convert_to_tensor_nested [OF n]
      by (auto split: if_splits sum.splits prod.splits)
    then show ?thesis using whole rec by blast
  qed
qed

lemma convert_args_to_tensor_calls:
  "c \<in> set (snd (convert_args_to_tensor conv args dtype name)) \<Longrightarrow> named_only_whole name c"
  unfolding convert_args_to_tensor_def
  by (auto split: if_splits
        dest!: map_structure_up_to_calls map_structure_up_to_with_shallow_calls
        intro: nested_convert_to_tensor_calls)

text \<open>
  Claim C10. In \<^verbatim>\<open>_nested_convert_to_tensor\<close>, when a \<open>dtype\<close> is given or the value
  is not nested, the one conversion made has no name, and the result is the same for
  every name. Among all the conversions \<^verbatim>\<open>_nested_convert_to_tensor\<close> and
  \<^verbatim>\<open>convert_args_to_tensor\<close> make, one with a \<open>dtype\<close> or on a value that is not nested
  has no name, and one that has a name has the name supplied: the name only reaches
  attempts on a whole nested value without \<open>dtype\<close>.
\<close>

theorem name_only_on_whole_structure_attempts:
  "((dtype \<noteq> None \<or> \<not> is_nested struct) \<longrightarrow>
       nested_convert_to_tensor conv struct dtype name
         = nested_convert_to_tensor conv struct dtype name'
     \<and> snd (nested_convert_to_tensor conv struct dtype name)
         = [ConvertToTensor struct dtype None None])
   \<and> (\<forall>c \<in> set (snd (nested_convert_to_tensor conv struct dtype name)).
         (call_dtype c \<noteq> None \<or> \<not> is_nested (call_value c) \<longrightarrow> call_name c = None)
         \<and> (call_name c \<noteq> None \<longrightarrow> call_name c = name))
   \<and> (\<forall>c \<in> set (snd (convert_args_to_tensor conv args dtypes name)).
         (call_dtype c \<noteq> None \<or> \<not> is_nested (call_value c) \<longrightarrow> call_name c = None)
         \<and> (call_name c \<noteq> None \<longrightarrow> call_name c = name))"
proof (intro conjI impI ballI)
  assume "dtype \<noteq> None \<or> \<not> is_nested struct"
  then show "nested_convert_to_tensor conv struct dtype name
               = nested_convert_to_tensor conv struct dtype name'"
    and "snd (nested_convert_to_tensor conv struct dtype name)
           = [ConvertToTensor struct dtype None None]"
    by (simp_all add: nested_convert_to_tensor.simps convert_to_tensor_def)
next
  fix c assume "c \<in> set (snd (nested_convert_to_tensor conv struct dtype name))"
  then have "named_only_whole name c" by (rule nested_convert_to_tensor_calls)
  then show "call_dtype c \<noteq> None \<or> \<not> is_nested (call_value c) \<Longrightarrow> call_name c = None"
    and "call_name c \<noteq> None \<Longrightarrow> call_name c = name"
    by (auto simp: named_only_whole_def)
next
  fix c assume "c \<in> set (snd (convert_args_to_tensor conv args dtypes name))"
  then have "named_only_whole name c" by (rule convert_args_to_tensor_calls)
  then show "call_dtype c \<noteq> None \<or> \<not> is_nested (call_value c) \<Longrightarrow> call_name c = None"
    and "call_name c \<noteq> None \<Longrightarrow> call_name c = name"
    by (auto simp: named_only_whole_def)
qed

text \<open>
  The list \<^verbatim>\<open>[1, [2]]\<close> under the name \<^verbatim>\<open>'x'\<close>: the attempt on the whole list and the
  attempt on \<^verbatim>\<open>[2]\<close> carry the name, the conversion of \<^verbatim>\<open>1\<close> does not; with the
  dtype structure \<^verbatim>\<open>[dtype, None]\<close> the conversion of \<^verbatim>\<open>1\<close> under the dtype has no
  name either.
\<close>

theorem name_only_on_whole_structure_attempts_witness:
  "nested_convert_to_tensor sample_converter (num 1) (None :: unit option) (Some ''x'')
     = nested_convert_to_tensor sample_converter (num 1) None None
   \<and> snd (nested_convert_to_tensor sample_converter (num 1) (None :: unit option) (Some ''x''))
     = [ConvertToTensor (num 1) None None None]
   \<and> snd (nested_convert_to_tensor sample_converter (pylist [num 1, pylist [num 2]])
            (None :: unit option) (Some ''x''))
     = [ConvertToTensor (pylist [num 1, pylist [num 2]]) None None (Some ''x''),
        ConvertToTensor (num 1) None None None,
        ConvertToTensor (pylist [num 2]) None None (Some ''x'')]
   \<and> snd (convert_args_to_tensor sample_converter (pylist [num 1, pylist [num 2]])
            (pylist [Atom no_attrs PyObject (Some ()), Atom no_attrs PyObject None]) (Some ''x''))
     = [ConvertToTensor (num 1) (Some ()) None None,
        ConvertToTensor (pylist [num 2]) None None (Some ''x'')]"
  using name_only_on_whole_structure_attempts
      [where conv = sample_converter and struct = "num 1" and dtype = "None :: unit option"
         and name = "Some ''x''" and name' = None
         and args = "pylist [num 1, pylist [num 2]]"
         and dtypes = "pylist [Atom no_attrs PyObject (Some ()), Atom no_attrs PyObject None]"]
    name_only_on_whole_structure_attempts
      [where conv = sample_converter and struct = "pylist [num 1, pylist [num 2]]"
         and dtype = "None :: unit option" and name = "Some ''x''" and name' = None
         and args = "pylist [num 1, pylist [num 2]]"
         and dtypes = "pylist [Atom no_attrs PyObject (Some ()), Atom no_attrs PyObject None]"]
  by (simp add: engine_eval convert_args_to_tensor_def is_None_def
        map_structure_up_to_with_shallow_def assert_shallow_structure.simps
        nested_convert_to_tensor.simps [of _ _ "Some _"])

section \<open>The fallback on the children\<close>

lemma sort_key_fst_keys: "map fst (sort_key fst kvs) = sort (map fst kvs)"
  using sort_key_map_commute [of "\<lambda>x. x" fst fst kvs] by simp

lemma zip_fst_map_snd:
  "zip (map fst S) (map g (map snd S)) = map (\<lambda>(key, x). (key, g x)) S"
  by (induction S) auto

text \<open>
  With each key once, looking the results up by key gives every key the result of its
  own value.
\<close>

lemma dict_like_map:
  assumes "distinct (map fst kvs)"
  shows "dict_like kvs (map g (map snd (sort_key fst kvs))) = map (\<lambda>(key, x). (key, g x)) kvs"
proof -
  let ?S = "sort_key fst kvs"
  have d: "distinct (map fst ?S)" using assms by (simp add: sort_key_fst_keys)
  have z: "zip (map fst ?S) (map g (map snd ?S)) = map (\<lambda>(key, x). (key, g x)) ?S"
    by (rule zip_fst_map_snd)
  have look: "map_of (map (\<lambda>(key, x). (key, g x)) ?S) key = Some (g x)"
    if "(key, x) \<in> set kvs" for key x
  proof -
    from that have "(key, x) \<in> set ?S" by simp
    with d have "map_of ?S key = Some x" by (rule map_of_is_SomeI)
    then show ?thesis by (simp add: map_of_map)
  qed
  show ?thesis
    unfolding dict_like_def Let_def z
    by (rule map_cong [OF refl]) (auto simp: look)
qed

lemma list_all2_map_projr:
  "list_all2 (\<lambda>x r. f x = Inr r) xs rs \<Longrightarrow> rs = map (\<lambda>x. projr (f x)) xs"
  by (induction rule: list_all2_induct) simp_all

lemma dict_like_results:
  assumes "distinct (map fst kvs)"
      and "list_all2 (\<lambda>x r. f x = Inr r) (map snd (sort_key fst kvs)) rs"
  shows "dict_like kvs rs = map (\<lambda>(key, x). (key, projr (f x))) kvs"
proof -
  have rs: "rs = map (\<lambda>x. projr (f x)) (map snd (sort_key fst kvs))"
    using assms(2) by (rule list_all2_map_projr)
  show ?thesis unfolding rs using assms(1) by (rule dict_like_map)
qed

lemma map_structure_up_to_children_rel:
  assumes n: "is_nested v" and dk: "distinct (keys_of v)"
      and res: "map_structure_up_to (get_shallow_structure v) f v = (Inr r, calls)"
  shows "children_rel (\<lambda>x y. fst (f x) = Inr y) v r
         \<and> calls = concat (map (\<lambda>x. snd (f x)) (yield_value v))"
proof -
  obtain q calls' where tr: "traverse f (yield_value v) = (q, calls')"
    by (cases "traverse f (yield_value v)")
  have "\<exists>rs. q = Inr rs"
  proof (cases q)
    case (Inl e)
    with tr n have "fst (map_structure_up_to (get_shallow_structure v) f v) = Inl e"
      by (intro map_structure_up_to_children_Inl) simp_all
    with res show ?thesis by simp
  qed simp
  then obtain rs where q: "q = Inr rs" ..
  from tr q have l2: "list_all2 (\<lambda>x r. fst (f x) = Inr r) (yield_value v) rs"
    and c: "calls' = concat (map (\<lambda>x. snd (f x)) (yield_value v))"
    by (auto dest: traverse_Inr)
  from l2 have len: "length rs = length (yield_value v)" by (simp add: list_all2_lengthD)
  show ?thesis
  proof (cases v)
    case (Atom a t x)
    with n show ?thesis by simp
  next
    case (Seq a k xs)
    with res tr q l2 c show ?thesis by (auto simp: map_structure_up_to_Seq)
  next
    case (NamedTuple a k fs)
    with res tr q l2 c len show ?thesis by (auto simp: map_structure_up_to_NamedTuple)
  next
    case (Mapping a kvs)
    let ?g = "\<lambda>x. projr (fst (f x))"
    from Mapping dk l2 have dl: "dict_like kvs rs = map (\<lambda>(key, x). (key, ?g x)) kvs"
      by (intro dict_like_results) simp_all
    have "fst (f x) = Inr (?g x)" if "x \<in> snd ` set kvs" for x
    proof -
      from that have "x \<in> set (yield_value v)" using Mapping by simp
      with l2 obtain y where "fst (f x) = Inr y"
        by (auto simp: list_all2_conv_all_nth in_set_conv_nth)
      then show ?thesis by simp
    qed
    then have "list_all2 (\<lambda>x y. fst (f x) = Inr y) (map snd kvs) (map ?g (map snd kvs))"
      by (simp add: list_all2_conv_all_nth)
    with Mapping res tr q c dl show ?thesis
      by (auto simp: map_structure_up_to_Mapping comp_def case_prod_beta)
  qed
qed

text \<open>
  Claim C3. Let \<open>struct\<close> be nested and no \<open>dtype\<close> be given.

  \<^item> When the attempt on the whole structure raises an exception that is neither a
    \<^verbatim>\<open>ValueError\<close> nor a \<^verbatim>\<open>TypeError\<close>, that exception is the result, after that one
    call.
  \<^item> When it raises \<^verbatim>\<open>ValueError\<close> or \<^verbatim>\<open>TypeError\<close>, the result is that of
    \<^verbatim>\<open>nest.map_structure_up_to\<close> over the shallow structure of \<open>struct\<close> with the
    function itself, after that one call.
  \<^item> When the attempt raises \<^verbatim>\<open>ValueError\<close> or \<^verbatim>\<open>TypeError\<close>, or is not made (a
    namedtuple without force-leaf), and every child converts, the conversion succeeds:
    the calls are the one attempt, if made, then those of each child in turn, and the
    result is the container of \<open>struct\<close> with each child replaced by its conversion.
\<close>

theorem whole_structure_fallback:
  "(is_nested struct \<and> maybe_convertible_to_tensor struct
      \<and> conv struct None None name = Inl e \<and> \<not> caught e
    \<longrightarrow> nested_convert_to_tensor conv struct None name
          = (Inl e, [ConvertToTensor struct None None name]))
   \<and> (is_nested struct \<and> maybe_convertible_to_tensor struct
      \<and> conv struct None None name = Inl e \<and> caught e
    \<longrightarrow> nested_convert_to_tensor conv struct None name
          = (case map_structure_up_to (get_shallow_structure struct)
                    (\<lambda>s. nested_convert_to_tensor conv s None name) struct of
               (result, calls) \<Rightarrow> (result, ConvertToTensor struct None None name # calls)))
   \<and> (is_nested struct \<and> distinct (keys_of struct)
      \<and> (maybe_convertible_to_tensor struct
            \<longrightarrow> (\<exists>e'. conv struct None None name = Inl e' \<and> caught e'))
      \<and> (\<forall>x \<in> set (yield_value struct).
            \<exists>y. fst (nested_convert_to_tensor conv x None name) = Inr y)
    \<longrightarrow> (\<exists>r. nested_convert_to_tensor conv struct None name
               = (Inr r,
                  (if maybe_convertible_to_tensor struct
                   then [ConvertToTensor struct None None name] else [])
                  @ concat (map (\<lambda>x. snd (nested_convert_to_tensor conv x None name))
                             (yield_value struct)))
            \<and> children_rel (\<lambda>x y. fst (nested_convert_to_tensor conv x None name) = Inr y)
                 struct r))"
proof (intro conjI impI)
  assume "is_nested struct \<and> maybe_convertible_to_tensor struct
      \<and> conv struct None None name = Inl e \<and> \<not> caught e"
  then show "nested_convert_to_tensor conv struct None name
          = (Inl e, [ConvertToTensor struct None None name])"
    by (simp add: nested_convert_to_tensor_nested)
next
  assume "is_nested struct \<and> maybe_convertible_to_tensor struct
      \<and> conv struct None None name = Inl e \<and> caught e"
  then show "nested_convert_to_tensor conv struct None name
          = (case map_structure_up_to (get_shallow_structure struct)
                    (\<lambda>s. nested_convert_to_tensor conv s None name) struct of
               (result, calls) \<Rightarrow> (result, ConvertToTensor struct None None name # calls))"
    by (simp add: nested_convert_to_tensor_nested)
next
  let ?f = "\<lambda>s. nested_convert_to_tensor conv s None name"
  assume a: "is_nested struct \<and> distinct (keys_of struct)
      \<and> (maybe_convertible_to_tensor struct
            \<longrightarrow> (\<exists>e'. conv struct None None name = Inl e' \<and> caught e'))
      \<and> (\<forall>x \<in> set (yield_value struct). \<exists>y. fst (?f x) = Inr y)"
  then have n: "is_nested struct" and dk: "distinct (keys_of struct)" by simp_all
  from a obtain rs where "fst (traverse ?f (yield_value struct)) = Inr rs"
    using traverse_all_Inr [of "yield_value struct" ?f] by blast
  then have "\<exists>r. fst (map_structure_up_to (get_shallow_structure struct) ?f struct) = Inr r"
    using n
    by (cases struct)
       (auto simp: map_structure_up_to_Seq map_structure_up_to_NamedTuple
          map_structure_up_to_Mapping split: prod.splits sum.splits)
  then obtain r calls
    where r: "map_structure_up_to (get_shallow_structure struct) ?f struct = (Inr r, calls)"
    by (cases "map_structure_up_to (get_shallow_structure struct) ?f struct") auto
  from map_structure_up_to_children_rel [OF n dk r]
  have cr: "children_rel (\<lambda>x y. fst (?f x) = Inr y) struct r"
    and calls: "calls = concat (map (\<lambda>x. snd (?f x)) (yield_value struct))" by simp_all
  have "nested_convert_to_tensor conv struct None name
      = (Inr r, (if maybe_convertible_to_tensor struct
                 then [ConvertToTensor struct None None name] else []) @ calls)"
    using a r by (auto simp: nested_convert_to_tensor_nested [OF n])
  with cr calls
  show "\<exists>r. nested_convert_to_tensor conv struct None name
               = (Inr r,
                  (if maybe_convertible_to_tensor struct
                   then [ConvertToTensor struct None None name] else [])
                  @ concat (map (\<lambda>x. snd (?f x)) (yield_value struct)))
            \<and> children_rel (\<lambda>x y. fst (?f x) = Inr y) struct r"
    by auto
qed

text \<open>
  A converter that raises another exception on the list \<^verbatim>\<open>[1]\<close>; the dictionary
  \<^verbatim>\<open>{'b': [[1], [2]], 'a': 1}\<close>, which the sample converter rejects as a whole; and the
  namedtuple \<^verbatim>\<open>Point(x=1, y=2)\<close>, for which no attempt on the whole is made.
\<close>

theorem whole_structure_fallback_witness:
  "\<not> caught (OtherError ''device lost'' :: py py_error)
   \<and> nested_convert_to_tensor (raising (OtherError ''device lost'')) (pylist [num 1])
        (None :: unit option) None
      = (Inl (OtherError ''device lost''), [ConvertToTensor (pylist [num 1]) None None None])
   \<and> (sample_converter
         (Mapping no_attrs [(''b'', pylist [pylist [num 1], pylist [num 2]]), (''a'', num 1)])
         (None :: unit option) None None
       = Inl (ValueError ''Can't convert Python sequence to Tensor.''))
   \<and> nested_convert_to_tensor sample_converter
        (Mapping no_attrs [(''b'', pylist [pylist [num 1], pylist [num 2]]), (''a'', num 1)])
        (None :: unit option) None
      = (Inr (Mapping no_attrs
                [(''b'', tensor (Arr [Arr [Num 1], Arr [Num 2]])), (''a'', tensor (Num 1))]),
         [ConvertToTensor
            (Mapping no_attrs [(''b'', pylist [pylist [num 1], pylist [num 2]]), (''a'', num 1)])
            None None None,
          ConvertToTensor (num 1) None None None,
          ConvertToTensor (pylist [pylist [num 1], pylist [num 2]]) None None None])
   \<and> \<not> maybe_convertible_to_tensor (NamedTuple no_attrs ''Point'' [(''x'', num 1), (''y'', num 2)])
   \<and> nested_convert_to_tensor sample_converter
        (NamedTuple no_attrs ''Point'' [(''x'', num 1), (''y'', num 2)]) (None :: unit option) None
      = (Inr (NamedTuple no_attrs ''Point'' [(''x'', tensor (Num 1)), (''y'', tensor (Num 2))]),
         [ConvertToTensor (num 1) None None None, ConvertToTensor (num 2) None None None])"
  using whole_structure_fallback
      [where conv = "raising (OtherError ''device lost'') :: (py, unit) converter"
         and struct = "pylist [num 1]" and name = None and e = "OtherError ''device lost''"]
    whole_structure_fallback
      [where conv = "sample_converter :: (py, unit) converter"
         and struct = "Mapping no_attrs
                         [(''b'', pylist [pylist [num 1], pylist [num 2]]), (''a'', num 1)]"
         and name = None and e = "ValueError ''Can't convert Python sequence to Tensor.''"]
    whole_structure_fallback
      [where conv = "sample_converter :: (py, unit) converter"
         and struct = "NamedTuple no_attrs ''Point'' [(''x'', num 1), (''y'', num 2)]"
         and name = None and e = "ValueError ''Can't convert Python sequence to Tensor.''"]
  by (simp add: engine_eval)

section \<open>The shape of a converted structure\<close>

lemma collapsed_from_children:
  "children_rel (\<lambda>x y. collapsed_from (shape_of y) (shape_of x)) v r
   \<Longrightarrow> collapsed_from (shape_of r) (shape_of v)"
  by (cases v; cases r)
     (auto simp: list_all2_conv_all_nth comp_def case_prod_beta)

lemma map_items_zip:
  "map (\<lambda>(f, x). (f, h x)) fs = zip (map fst fs) (map (h \<circ> snd) fs)"
  by (induction fs) auto

lemma shape_of_children:
  "children_rel (\<lambda>x y. shape_of y = shape_of x) v r \<Longrightarrow> shape_of r = shape_of v"
proof (cases v; cases r)
  fix a k xs a' k' ys assume "v = Seq a k xs" "r = Seq a' k' ys"
    and "children_rel (\<lambda>x y. shape_of y = shape_of x) v r"
  then show ?thesis by (auto simp: list_all2_conv_all_nth intro: nth_equalityI)
next
  fix a n fs a' n' gs assume v: "v = NamedTuple a n fs" and r: "r = NamedTuple a' n' gs"
    and "children_rel (\<lambda>x y. shape_of y = shape_of x) v r"
  then have eq: "a' = a" "n' = n" and kf: "map fst gs = map fst fs"
    and "list_all2 (\<lambda>x y. shape_of y = shape_of x) (map snd fs) (map snd gs)" by simp_all
  then have ks: "map (shape_of \<circ> snd) gs = map (shape_of \<circ> snd) fs"
    by (auto simp: list_all2_conv_all_nth intro: nth_equalityI)
  show ?thesis
    unfolding v r shape_of.simps map_items_zip [of shape_of] kf ks eq ..
next
  fix a fs a' gs assume v: "v = Mapping a fs" and r: "r = Mapping a' gs"
    and "children_rel (\<lambda>x y. shape_of y = shape_of x) v r"
  then have eq: "a' = a" and kf: "map fst gs = map fst fs"
    and "list_all2 (\<lambda>x y. shape_of y = shape_of x) (map snd fs) (map snd gs)" by simp_all
  then have ks: "map (shape_of \<circ> snd) gs = map (shape_of \<circ> snd) fs"
    by (auto simp: list_all2_conv_all_nth intro: nth_equalityI)
  show ?thesis
    unfolding v r shape_of.simps map_items_zip [of shape_of] kf ks eq ..
qed auto

lemma children_rel_mono:
  "children_rel P v r \<Longrightarrow> (\<And>x y. x \<in> set (yield_value v) \<Longrightarrow> P x y \<Longrightarrow> Q x y)
   \<Longrightarrow> children_rel Q v r"
  by (cases v; cases r) (auto simp: list_all2_conv_all_nth)

lemma children_rel_flatten:
  "children_rel P v r \<Longrightarrow> y \<in> set (flatten r)
   \<Longrightarrow> \<exists>x c. x \<in> set (yield_value v) \<and> P x c \<and> y \<in> set (flatten c)"
proof (cases v; cases r)
  fix a k xs a' k' ys assume "v = Seq a k xs" "r = Seq a' k' ys"
    and "children_rel P v r" "y \<in> set (flatten r)"
  then show ?thesis by (auto simp: list_all2_conv_all_nth in_set_conv_nth) blast
next
  fix a n fs a' n' gs assume v: "v = NamedTuple a n fs" and r: "r = NamedTuple a' n' gs"
    and cr: "children_rel P v r" and y: "y \<in> set (flatten r)"
  from y r obtain c where c: "c \<in> set (map snd gs)" "y \<in> set (flatten c)" by force
  then obtain i where "i < length gs" "c = map snd gs ! i" by (auto simp: in_set_conv_nth)
  with cr v r have "P (map snd fs ! i) c" "i < length fs"
    by (auto simp: list_all2_conv_all_nth)
  with c v show ?thesis by (intro exI [of _ "map snd fs ! i"] exI [of _ c]) auto
next
  fix a fs a' gs assume v: "v = Mapping a fs" and r: "r = Mapping a' gs"
    and cr: "children_rel P v r" and y: "y \<in> set (flatten r)"
  from y r obtain c where c: "c \<in> set (map snd gs)" "y \<in> set (flatten c)" by force
  then obtain i where "i < length gs" "c = map snd gs ! i" by (auto simp: in_set_conv_nth)
  with cr v r have "P (map snd fs ! i) c" "i < length fs"
    by (auto simp: list_all2_conv_all_nth)
  with c v show ?thesis by (intro exI [of _ "map snd fs ! i"] exI [of _ c]) auto
qed auto

lemma unique_keys_child: "unique_keys v \<Longrightarrow> x \<in> set (yield_value v) \<Longrightarrow> unique_keys x"
  by (cases v) (auto simp: list_all_iff)

lemma unique_keys_distinct: "unique_keys v \<Longrightarrow> distinct (keys_of v)"
  by (cases v) auto

lemma substructures_self: "v \<in> set (substructures v)"
  by (cases v) auto

lemma substructures_child:
  "x \<in> set (yield_value v) \<Longrightarrow> s \<in> set (substructures x) \<Longrightarrow> s \<in> set (substructures v)"
  by (cases v) (auto 4 3)

lemma expected_shape_children:
  "is_nested v \<Longrightarrow> whole_conversion conv name v = None
   \<Longrightarrow> children_rel (\<lambda>x y. shape_of y = expected_shape conv name x) v r
   \<Longrightarrow> shape_of r = expected_shape conv name v"
proof (cases v; cases r)
  fix a k xs a' k' ys assume "v = Seq a k xs" "r = Seq a' k' ys"
    and "whole_conversion conv name v = None"
    and "children_rel (\<lambda>x y. shape_of y = expected_shape conv name x) v r"
  then show ?thesis by (auto simp: list_all2_conv_all_nth intro: nth_equalityI)
next
  fix a n fs a' n' gs assume v: "v = NamedTuple a n fs" and r: "r = NamedTuple a' n' gs"
    and w: "whole_conversion conv name v = None"
    and "children_rel (\<lambda>x y. shape_of y = expected_shape conv name x) v r"
  then have eq: "a' = a" "n' = n" and kf: "map fst gs = map fst fs"
    and "list_all2 (\<lambda>x y. shape_of y = expected_shape conv name x) (map snd fs) (map snd gs)"
    by simp_all
  then have ks: "map (shape_of \<circ> snd) gs = map (expected_shape conv name \<circ> snd) fs"
    by (auto simp: list_all2_conv_all_nth intro: nth_equalityI)
  show ?thesis
    using w unfolding v r shape_of.simps expected_shape.simps
      map_items_zip [of shape_of] map_items_zip [of "expected_shape conv name"] kf ks eq
    by simp
next
  fix a fs a' gs assume v: "v = Mapping a fs" and r: "r = Mapping a' gs"
    and w: "whole_conversion conv name v = None"
    and "children_rel (\<lambda>x y. shape_of y = expected_shape conv name x) v r"
  then have eq: "a' = a" and kf: "map fst gs = map fst fs"
    and "list_all2 (\<lambda>x y. shape_of y = expected_shape conv name x) (map snd fs) (map snd gs)"
    by simp_all
  then have ks: "map (shape_of \<circ> snd) gs = map (expected_shape conv name \<circ> snd) fs"
    by (auto simp: list_all2_conv_all_nth intro: nth_equalityI)
  show ?thesis
    using w unfolding v r shape_of.simps expected_shape.simps
      map_items_zip [of shape_of] map_items_zip [of "expected_shape conv name"] kf ks eq
    by simp
qed auto

lemma sort_key_items_rel:
  assumes kf: "map fst kvs' = map fst kvs"
      and l2: "list_all2 Q (map snd kvs) (map snd kvs')"
  shows "list_all2 Q (map snd (sort_key fst kvs)) (map snd (sort_key fst kvs'))"
proof -
  define ts where "ts = map (\<lambda>((k, x), (k', y)). (k, x, y)) (zip kvs kvs')"
  from kf have len: "length kvs' = length kvs" by (metis length_map)
  have a: "kvs = map (\<lambda>(k, x, y). (k, x)) ts"
    unfolding ts_def using len by (intro nth_equalityI) (auto simp: case_prod_beta)
  have b: "kvs' = map (\<lambda>(k, x, y). (k, y)) ts"
  proof (intro nth_equalityI)
    show "length kvs' = length (map (\<lambda>(k, x, y). (k, y)) ts)" unfolding ts_def using len by simp
  next
    fix i assume i: "i < length kvs'"
    with kf len have "fst (kvs' ! i) = fst (kvs ! i)" by (metis nth_map)
    with i len show "kvs' ! i = map (\<lambda>(k, x, y). (k, y)) ts ! i"
      unfolding ts_def by (simp add: case_prod_beta prod_eq_iff)
  qed
  have q: "\<forall>p \<in> set ts. Q (fst (snd p)) (snd (snd p))"
  proof
    fix p assume "p \<in> set ts"
    then obtain i where i: "i < length ts" "p = ts ! i" by (auto simp: in_set_conv_nth)
    with l2 len show "Q (fst (snd p)) (snd (snd p))"
      unfolding ts_def by (auto simp: list_all2_conv_all_nth case_prod_beta)
  qed
  have sa: "sort_key fst kvs = map (\<lambda>(k, x, y). (k, x)) (sort_key fst ts)"
    unfolding a using sort_key_map_commute [of fst "\<lambda>(k, x, y). (k, x)" fst ts]
    by (simp add: case_prod_beta)
  have sb: "sort_key fst kvs' = map (\<lambda>(k, x, y). (k, y)) (sort_key fst ts)"
    unfolding b using sort_key_map_commute [of fst "\<lambda>(k, x, y). (k, y)" fst ts]
    by (simp add: case_prod_beta)
  have "Q (fst (snd (sort_key fst ts ! i))) (snd (snd (sort_key fst ts ! i)))"
    if "i < length ts" for i
    using q nth_mem [of i "sort_key fst ts"] that by simp
  then show ?thesis unfolding sa sb
    by (simp add: list_all2_conv_all_nth case_prod_beta)
qed

lemma flatten_children:
  assumes "children_rel (\<lambda>x y. flatten y = g x) v r"
  shows "flatten r = concat (map g (yield_value v))"
proof (cases v; cases r)
  fix a k xs a' k' ys assume "v = Seq a k xs" "r = Seq a' k' ys"
  with assms have "map flatten ys = map g xs"
    by (auto simp: list_all2_conv_all_nth intro: nth_equalityI)
  with \<open>v = Seq a k xs\<close> \<open>r = Seq a' k' ys\<close> show ?thesis by simp
next
  fix a n fs a' n' gs assume v: "v = NamedTuple a n fs" and r: "r = NamedTuple a' n' gs"
  with assms have "map flatten (map snd gs) = map g (map snd fs)"
    by (auto simp: list_all2_conv_all_nth intro: nth_equalityI)
  moreover have "map (\<lambda>(f, x). flatten x) gs = map flatten (map snd gs)"
    by (simp add: case_prod_beta comp_def)
  ultimately show ?thesis using v r by simp
next
  fix a fs a' gs assume v: "v = Mapping a fs" and r: "r = Mapping a' gs"
  with assms have "list_all2 (\<lambda>x y. flatten y = g x)
      (map snd (sort_key fst fs)) (map snd (sort_key fst gs))"
    by (intro sort_key_items_rel) simp_all
  then have "map flatten (map snd (sort_key fst gs)) = map g (map snd (sort_key fst fs))"
    by (auto simp: list_all2_conv_all_nth intro: nth_equalityI)
  moreover have "map (\<lambda>(f, x). flatten x) (sort_key fst gs) = map flatten (map snd (sort_key fst gs))"
    by (simp add: case_prod_beta comp_def)
  ultimately show ?thesis using v r by simp
qed (use assms in auto)

text \<open>
  Claim C1, as amended. When \<^verbatim>\<open>_nested_convert_to_tensor\<close> without \<open>dtype\<close> returns a
  result for a structure \<open>v\<close>, the shape of the result is exactly the shape of \<open>v\<close> cut at
  the outermost nested sub-structures whose conversion as a whole succeeded (those the
  engine tries as a whole: not a namedtuple, or force-leaf): each of them has become a
  single leaf, and everywhere else the kinds of container, the keys and the order of the
  fields are those of \<open>v\<close>. The leaves of the result are, in order, the tensors the leaf
  converter returned for the atoms of \<open>v\<close> (without a name) and for those sub-structures
  (under the name). So the shape of the result is that of \<open>v\<close> with some sub-shapes
  replaced by a leaf, every leaf of the result is a tensor, and when the leaf converter
  accepts no nested sub-structure of \<open>v\<close> as a whole, the result has the shape of \<open>v\<close>.
\<close>

theorem nested_convert_to_tensor_shape:
  "unique_keys v \<Longrightarrow> fst (nested_convert_to_tensor conv v None name) = Inr r \<Longrightarrow>
     shape_of r = expected_shape conv name v
     \<and> flatten r = map (Atom no_attrs PyTensor) (converted_leaves conv name v)
     \<and> collapsed_from (shape_of r) (shape_of v)
     \<and> (\<forall>y \<in> set (flatten r). is_tensor y)
     \<and> ((\<forall>s \<in> set (substructures v). is_nested s \<longrightarrow> (\<forall>t. conv s None None name \<noteq> Inr t))
          \<longrightarrow> shape_of r = shape_of v)"
proof (induction v arbitrary: r rule: measure_induct_rule [of size])
  case (less v)
  let ?f = "\<lambda>s. nested_convert_to_tensor conv s None name"
  let ?P = "\<lambda>x. \<forall>s \<in> set (substructures x).
                  is_nested s \<longrightarrow> (\<forall>t. conv s None None name \<noteq> Inr t)"
  let ?L = "\<lambda>x. map (Atom no_attrs PyTensor) (converted_leaves conv name x)"
  show ?case
  proof (cases "is_nested v")
    case False
    with less.prems(2) obtain t where "r = Atom no_attrs PyTensor t" "conv v None None None = Inr t"
      by (auto simp: nested_convert_to_tensor_leaf convert_to_tensor_def split: sum.splits)
    with False show ?thesis
      by (cases v) (simp_all add: shape_of_not_nested converted_leaves.simps)
  next
    case n: True
    show ?thesis
    proof (cases "whole_conversion conv name v")
      case (Some t)
      then have c: "maybe_convertible_to_tensor v" "conv v None None name = Inr t"
        by (auto simp: whole_conversion_def split: if_splits sum.splits)
      with less.prems(2) n have r: "r = Atom no_attrs PyTensor t"
        by (simp add: nested_convert_to_tensor_nested)
      have "expected_shape conv name v = LeafShape" using Some n by (cases v) simp_all
      with r Some n c substructures_self [of v] show ?thesis
        by (auto simp: converted_leaves.simps)
    next
      case None
      with less.prems(2) n
      have "fst (map_structure_up_to (get_shallow_structure v) ?f v) = Inr r"
        by (auto simp: nested_convert_to_tensor_nested whole_conversion_def
              split: if_splits sum.splits prod.splits)
      then obtain calls
        where rec: "map_structure_up_to (get_shallow_structure v) ?f v = (Inr r, calls)"
        by (cases "map_structure_up_to (get_shallow_structure v) ?f v") simp
      have cr: "children_rel (\<lambda>x y. fst (?f x) = Inr y) v r"
        using map_structure_up_to_children_rel [OF n unique_keys_distinct [OF less.prems(1)] rec] ..
      have ih: "shape_of y = expected_shape conv name x
                \<and> flatten y = ?L x
                \<and> collapsed_from (shape_of y) (shape_of x)
                \<and> (\<forall>z \<in> set (flatten y). is_tensor z)
                \<and> (?P x \<longrightarrow> shape_of y = shape_of x)"
        if "x \<in> set (yield_value v)" "fst (?f x) = Inr y" for x y
      proof -
        from that(1) have "size x < size v" "unique_keys x"
          using size_yield_value [of x v] unique_keys_child [OF less.prems(1)] by simp_all
        from less.IH [OF this that(2)] show ?thesis .
      qed
      have 0: "shape_of r = expected_shape conv name v"
        by (rule expected_shape_children [OF n None], rule children_rel_mono [OF cr])
           (use ih in blast)
      have "flatten r = concat (map ?L (yield_value v))"
        by (rule flatten_children, rule children_rel_mono [OF cr]) (use ih in blast)
      then have 00: "flatten r = ?L v"
        using n None by (subst converted_leaves.simps) (simp add: map_concat comp_def)
      have 1: "collapsed_from (shape_of r) (shape_of v)"
        by (rule collapsed_from_children, rule children_rel_mono [OF cr]) (use ih in blast)
      have 2: "\<forall>y \<in> set (flatten r). is_tensor y"
      proof
        fix y assume "y \<in> set (flatten r)"
        with cr obtain x c
          where "x \<in> set (yield_value v)" "fst (?f x) = Inr c" "y \<in> set (flatten c)"
          using children_rel_flatten by fast
        with ih show "is_tensor y" by blast
      qed
      have 3: "shape_of r = shape_of v" if p: "?P v"
      proof (rule shape_of_children, rule children_rel_mono [OF cr])
        fix x y assume x: "x \<in> set (yield_value v)" and y: "fst (?f x) = Inr y"
        have "?P x" using p substructures_child [OF x] by blast
        with ih [OF x y] show "shape_of y = shape_of x" by blast
      qed
      from 0 00 1 2 3 show ?thesis by blast
    qed
  qed
qed

text \<open>
  The dictionary \<^verbatim>\<open>{'k': [1, 2], 'j': {'i': 3}}\<close> converts to
  \<^verbatim>\<open>{'k': T([1, 2]), 'j': {'i': T(3)}}\<close>: the list has become one tensor, and the
  dictionaries, which the sample converter rejects, are kept. The dictionary
  \<^verbatim>\<open>{'k': 1, 'j': {'i': 2}}\<close>, of which the sample converter accepts no nested part,
  keeps its shape.
\<close>

theorem nested_convert_to_tensor_shape_witness:
  "unique_keys (Mapping no_attrs
      [(''k'', pylist [num 1, num 2]), (''j'', Mapping no_attrs [(''i'', num 3)])])
   \<and> fst (nested_convert_to_tensor sample_converter
            (Mapping no_attrs
               [(''k'', pylist [num 1, num 2]), (''j'', Mapping no_attrs [(''i'', num 3)])])
            (None :: unit option) None)
       = Inr (Mapping no_attrs
                [(''k'', tensor (Arr [Num 1, Num 2])),
                 (''j'', Mapping no_attrs [(''i'', tensor (Num 3))])])
   \<and> expected_shape (sample_converter :: (py, unit) converter) None
         (Mapping no_attrs
            [(''k'', pylist [num 1, num 2]), (''j'', Mapping no_attrs [(''i'', num 3)])])
       = MappingShape no_attrs
           [(''k'', LeafShape), (''j'', MappingShape no_attrs [(''i'', LeafShape)])]
   \<and> shape_of (Mapping no_attrs
                [(''k'', tensor (Arr [Num 1, Num 2])),
                 (''j'', Mapping no_attrs [(''i'', tensor (Num 3))])])
       = MappingShape no_attrs
           [(''k'', LeafShape), (''j'', MappingShape no_attrs [(''i'', LeafShape)])]
   \<and> converted_leaves (sample_converter :: (py, unit) converter) None
         (Mapping no_attrs
            [(''k'', pylist [num 1, num 2]), (''j'', Mapping no_attrs [(''i'', num 3)])])
       = [Num 3, Arr [Num 1, Num 2]]
   \<and> flatten (Mapping no_attrs
                [(''k'', tensor (Arr [Num 1, Num 2])),
                 (''j'', Mapping no_attrs [(''i'', tensor (Num 3))])])
       = [tensor (Num 3), tensor (Arr [Num 1, Num 2])]
   \<and> collapsed_from
         (MappingShape no_attrs
            [(''k'', LeafShape), (''j'', MappingShape no_attrs [(''i'', LeafShape)])])
         (shape_of (Mapping no_attrs
            [(''k'', pylist [num 1, num 2]), (''j'', Mapping no_attrs [(''i'', num 3)])]))
   \<and> unique_keys (Mapping no_attrs [(''k'', num 1), (''j'', Mapping no_attrs [(''i'', num 2)])])
   \<and> fst (nested_convert_to_tensor sample_converter
            (Mapping no_attrs [(''k'', num 1), (''j'', Mapping no_attrs [(''i'', num 2)])])
            (None :: unit option) None)
       = Inr (Mapping no_attrs
                [(''k'', tensor (Num 1)), (''j'', Mapping no_attrs [(''i'', tensor (Num 2))])])
   \<and> shape_of (Mapping no_attrs
                [(''k'', tensor (Num 1)), (''j'', Mapping no_attrs [(''i'', tensor (Num 2))])])
       = shape_of (Mapping no_attrs [(''k'', num 1), (''j'', Mapping no_attrs [(''i'', num 2)])])"
  using nested_convert_to_tensor_shape
      [where conv = "sample_converter :: (py, unit) converter" and name = None
         and v = "Mapping no_attrs
                    [(''k'', pylist [num 1, num 2]), (''j'', Mapping no_attrs [(''i'', num 3)])]"
         and r = "Mapping no_attrs
                    [(''k'', tensor (Arr [Num 1, Num 2])),
                     (''j'', Mapping no_attrs [(''i'', tensor (Num 3))])]"]
    nested_convert_to_tensor_shape
      [where conv = "sample_converter :: (py, unit) converter" and name = None
         and v = "Mapping no_attrs [(''k'', num 1), (''j'', Mapping no_attrs [(''i'', num 2)])]"
         and r = "Mapping no_attrs
                    [(''k'', tensor (Num 1)), (''j'', Mapping no_attrs [(''i'', tensor (Num 2))])]"]
  by (simp add: engine_eval whole_conversion_def converted_leaves.simps)

text \<open>
  Claim C1 as stated fails: the list \<^verbatim>\<open>[1, 2]\<close> converts as a whole to the single
  tensor \<^verbatim>\<open>T([1, 2])\<close>, a leaf, which does not have the shape of a list of two leaves.
\<close>

theorem nested_convert_to_tensor_shape_counterexample:
  "nested_convert_to_tensor sample_converter (pylist [num 1, num 2]) (None :: unit option) None
     = (Inr (tensor (Arr [Num 1, Num 2])), [ConvertToTensor (pylist [num 1, num 2]) None None None])
   \<and> shape_of (tensor (Arr [Num 1, Num 2])) = LeafShape
   \<and> shape_of (pylist [num 1, num 2]) = SeqShape no_attrs PyList [LeafShape, LeafShape]
   \<and> shape_of (tensor (Arr [Num 1, Num 2])) \<noteq> shape_of (pylist [num 1, num 2])"
  by (simp add: engine_eval)

section \<open>The guard against stacking\<close>








end
